theory Spec2Isabelle
  imports
    Main
    "HOL-Library.Word"
    "HOL-Library.Char_ord"
    "HOL-Library.List_Lexorder"
    "HOL-Library.Multiset"
    "HOL-Library.AList"
begin

section \<open>The library scanner of fooyin (src/core/library/libraryscanner.cpp)\<close>

text \<open>
  The development embeds the scanner's file enumeration (\<open>sortFiles\<close>, \<open>getFiles\<close>), its
  identity matching (\<open>matchMissingTrack\<close>), its reconciliation of files and cue sheets
  against the known tracks (\<open>populateExistingTracks\<close>, \<open>readFile\<close>, \<open>readCue\<close> and what they
  call), its batched write-back (\<open>checkBatchFinished\<close>), and the run itself
  (\<open>getAndSaveAllTracks\<close>, \<open>scanLibrary\<close>, \<open>scanLibraryDirectory\<close>, \<open>stopThread\<close>). The scans of
  single tracks, external files and playlists are not embedded. The classes the scanner only
  uses (Track, TrackDatabase, AudioLoader, PlaylistLoader, Worker, the Qt file system
  classes) are not part of the sources at hand: their answers are fields of an environment
  record, and what the scanner stores in a Track is a record.
\<close>

subsection \<open>Paths (QFileInfo, QUrl)\<close>

text \<open>
  A QFileInfo is modelled by the path it was built from. \<open>fileName\<close> is the part of the
  path after its last slash, \<open>suffix\<close> the part of the file name after its last dot (empty
  when the name has no dot), as QFileInfo documents them. Strings are compared as lists of
  characters, in lexicographic order.
\<close>

definition fileName :: "string \<Rightarrow> string" where
  "fileName p = rev (takeWhile (\<lambda>c. c \<noteq> CHR ''/'') (rev p))"

definition suffix :: "string \<Rightarrow> string" where
  "suffix p =
     (let n = fileName p
      in if CHR ''.'' \<in> set n then rev (takeWhile (\<lambda>c. c \<noteq> CHR ''.'') (rev n)) else [])"

definition toLower :: "char \<Rightarrow> char" where
  "toLower c =
     (case map_of (zip ''ABCDEFGHIJKLMNOPQRSTUVWXYZ'' ''abcdefghijklmnopqrstuvwxyz'') c of
        Some l \<Rightarrow> l
      | None \<Rightarrow> c)"

text \<open>\<open>a.suffix().compare(u"cue", Qt::CaseInsensitive) == 0\<close>\<close>

definition isCue :: "string \<Rightarrow> bool" where
  "isCue p = (map toLower (suffix p) = ''cue'')"

datatype url = LocalFile string | OtherUrl string

fun isLocalFile :: "url \<Rightarrow> bool" where
  "isLocalFile (LocalFile p) = True"
| "isLocalFile (OtherUrl u) = False"

fun toLocalFile :: "url \<Rightarrow> string" where
  "toLocalFile (LocalFile p) = p"
| "toLocalFile (OtherUrl u) = []"

text \<open>\<open>QUrl::fromLocalFile\<close> of an empty string is the empty URL, which is no local file.\<close>

definition fromLocalFile :: "string \<Rightarrow> url" where
  "fromLocalFile p = (if p = [] then OtherUrl [] else LocalFile p)"

subsection \<open>Sorting with a comparator (std::sort, std::stable_sort)\<close>

text \<open>
  \<open>std::stable_sort\<close> with a comparator \<open>lt\<close> is modelled by insertion sort: an element is
  put behind the elements that are less than it and in front of the first one that is not,
  so elements that the comparator does not order keep their order. \<open>std::sort\<close> gives no
  such promise, but \<open>sortFiles\<close> calls it on paths with the comparator \<open><\<close>, where two
  entries that the comparator does not order are the same path; the same insertion sort
  models it.
\<close>

fun insert_by :: "('a \<Rightarrow> 'a \<Rightarrow> bool) \<Rightarrow> 'a \<Rightarrow> 'a list \<Rightarrow> 'a list" where
  "insert_by lt x [] = [x]"
| "insert_by lt x (y # ys) = (if lt y x then y # insert_by lt x ys else x # y # ys)"

definition stable_sort_by :: "('a \<Rightarrow> 'a \<Rightarrow> bool) \<Rightarrow> 'a list \<Rightarrow> 'a list" where
  "stable_sort_by lt xs = foldr (insert_by lt) xs []"

text \<open>The comparator of the second pass of \<open>sortFiles\<close>, branch by branch.\<close>

definition cueBefore :: "string \<Rightarrow> string \<Rightarrow> bool" where
  "cueBefore a b =
     (let aIsCue = isCue a; bIsCue = isCue b
      in if aIsCue \<and> \<not> bIsCue then True
         else if \<not> aIsCue \<and> bIsCue then False
         else False)"

definition sortFiles :: "string list \<Rightarrow> string list" where
  "sortFiles files = stable_sort_by cueBefore (stable_sort_by (\<lambda>a b. a < b) files)"

subsection \<open>Tracks (core/track.h is not part of the sources)\<close>

text \<open>
  A track is the record of what the scanner reads and writes of it. \<open>tags\<close> stands for the
  metadata the scanner never looks at. Times, sizes and durations are unsigned 64-bit
  numbers, identifiers are ints.
\<close>

record Track =
  trackId :: int
  libraryId :: int
  filepath :: string
  subsong :: int
  cuePath :: string
  hash :: string
  duration :: "64 word"
  fileSize :: "64 word"
  addedTime :: "64 word"
  modifiedTime :: "64 word"
  isEnabled :: bool
  extraTags :: "(string \<times> string list) list"
  tags :: string

text \<open>
  Modelled from the spec: the default-constructed Track (\<open>Track{}\<close> and \<open>return {}\<close>), which
  core/track.h declares. The spec calls it the empty/invalid track: its identifier is
  "absent/negative until persisted" and its library id is -1.
\<close>

definition emptyTrack :: Track where
  "emptyTrack =
     \<lparr>trackId = - 1, libraryId = - 1, filepath = [], subsong = 0, cuePath = [], hash = [],
      duration = 0, fileSize = 0, addedTime = 0, modifiedTime = 0, isEnabled = True,
      extraTags = [], tags = []\<rparr>"

text \<open>\<open>Track{filepath, subIndex}\<close>\<close>

definition newTrack :: "string \<Rightarrow> int \<Rightarrow> Track" where
  "newTrack p i = emptyTrack\<lparr>filepath := p, subsong := i\<rparr>"

text \<open>
  Modelled from the spec: the accessors of Track that the scanner calls and core/track.h
  declares. A track is in the database when its identifier is not negative, in a library
  when its library id is not negative; its file name is the last component of its path;
  it has a cue when its cue path is not empty; its unique file path is the "composite key
  (archive/file path + embedded index)".
\<close>

definition isInDatabase :: "Track \<Rightarrow> bool" where
  "isInDatabase t = (0 \<le> trackId t)"

definition isInLibrary :: "Track \<Rightarrow> bool" where
  "isInLibrary t = (0 \<le> libraryId t)"

definition filename :: "Track \<Rightarrow> string" where
  "filename t = fileName (filepath t)"

definition hasCue :: "Track \<Rightarrow> bool" where
  "hasCue t = (cuePath t \<noteq> [])"

definition uniqueFilepath :: "Track \<Rightarrow> string \<times> int" where
  "uniqueFilepath t = (filepath t, subsong t)"

definition hasExtraTag :: "Track \<Rightarrow> string \<Rightarrow> bool" where
  "hasExtraTag t k = (map_of (extraTags t) k \<noteq> None)"

definition extraTag :: "Track \<Rightarrow> string \<Rightarrow> string list" where
  "extraTag t k = (case map_of (extraTags t) k of None \<Rightarrow> [] | Some vs \<Rightarrow> vs)"

definition setFilePath :: "string \<Rightarrow> Track \<Rightarrow> Track" where
  "setFilePath p t = t\<lparr>filepath := p\<rparr>"

text \<open>
  Modelled from the spec: the archive accessors of Track. The path of a track inside an
  archive follows the scanner's constant \<open>ArchivePath = "unpack://%1|%2|file://%3!"\<close>
  (type, length of the archive's path, the archive's path) followed by the entry, "so that a
  track can be traced back to (container, entry)"; the archive's path is read back from it.
\<close>

definition digitVal :: "char \<Rightarrow> nat" where
  "digitVal c = (case map_of (zip ''0123456789'' [0 ..< 10]) c of Some d \<Rightarrow> d | None \<Rightarrow> 0)"

definition natOfDecimal :: "string \<Rightarrow> nat" where
  "natOfDecimal ds = foldl (\<lambda>n c. 10 * n + digitVal c) 0 ds"

fun showNat :: "nat \<Rightarrow> string" where
  "showNat n =
     (if n < 10 then [''0123456789'' ! n] else showNat (n div 10) @ [''0123456789'' ! (n mod 10)])"

declare showNat.simps [simp del]

definition isInArchive :: "Track \<Rightarrow> bool" where
  "isInArchive t = (take 9 (filepath t) = ''unpack://'')"

definition archivePath :: "Track \<Rightarrow> string" where
  "archivePath t =
     (if isInArchive t
      then (let afterType = drop 1 (dropWhile (\<lambda>c. c \<noteq> CHR ''|'') (drop 9 (filepath t)));
                len = natOfDecimal (takeWhile (\<lambda>c. c \<noteq> CHR ''|'') afterType);
                afterLen = drop 8 (dropWhile (\<lambda>c. c \<noteq> CHR ''|'') afterType)
            in take len afterLen)
      else [])"

subsection \<open>The environment: file system, clock, settings and collaborators\<close>

datatype WorkerState = Idle | Running | Paused

record archiveEntry =
  entryName :: string
  entryOpens :: bool
  entrySize :: int
  entryInit :: bool
  entrySubsongs :: int

text \<open>
  Every answer the scanner gets from outside is a field: the file system (QFileInfo, QFile,
  QDirIterator), the clock, the settings, the audio loader with its tag and archive readers,
  the playlist parsers, the hash a track generates from its metadata, the store's
  \<open>idForTrack\<close>, the worker state another thread has requested by the time of the
  scanner's n-th look at it, and the rank that says where a key stands when a
  \<open>std::unordered_map\<close> is iterated: the standard leaves that order open, and every order of
  entries with different keys is the order of some rank.
\<close>

record env =
  fsIsDir :: "string \<Rightarrow> bool"
  fsExists :: "string \<Rightarrow> bool"
  fsSize :: "string \<Rightarrow> int"
  fsLastModified :: "string \<Rightarrow> int option"
  fsAbsolute :: "string \<Rightarrow> string"
  fsListDir :: "string \<Rightarrow> string list \<Rightarrow> string list"
  fsCanOpen :: "string \<Rightarrow> bool"
  currentMSecs :: int
  extensionsToWildcards :: "string list \<Rightarrow> string list"
  libraryRestrictTypes :: "string list"
  libraryExcludeTypes :: "string list option"
  supportedFileExtensions :: "string list"
  loaderIsArchive :: "string \<Rightarrow> bool"
  hasReader :: "string \<Rightarrow> bool"
  readerInit :: "string \<Rightarrow> bool"
  subsongCount :: "string \<Rightarrow> int"
  readTrack :: "Track \<Rightarrow> Track option"
  readTrackMetadata :: "Track \<Rightarrow> Track option"
  hasArchiveReader :: "string \<Rightarrow> bool"
  archiveInit :: "string \<Rightarrow> bool"
  archiveType :: "string \<Rightarrow> string"
  archiveEntries :: "string \<Rightarrow> archiveEntry list"
  archiveReadOk :: "string \<Rightarrow> bool"
  hasParser :: "string \<Rightarrow> bool"
  parsePlaylistFile :: "string \<Rightarrow> bool \<Rightarrow> Track list"
  bufferOpens :: "string \<Rightarrow> bool"
  parseEmbeddedCue :: "string \<Rightarrow> string \<Rightarrow> Track list"
  hashOf :: "Track \<Rightarrow> string"
  idForTrack :: "Track \<Rightarrow> int"
  requested :: "nat \<Rightarrow> WorkerState option"
  iterationRank :: "string \<Rightarrow> nat"

definition generateHash :: "env \<Rightarrow> Track \<Rightarrow> Track" where
  "generateHash e t = t\<lparr>hash := hashOf e t\<rparr>"

text \<open>The time of last modification as the scanner computes it: 0 when it is not valid.\<close>

definition lastModifiedOf :: "env \<Rightarrow> string \<Rightarrow> 64 word" where
  "lastModifiedOf e p = (case fsLastModified e p of Some m \<Rightarrow> word_of_int m | None \<Rightarrow> 0)"

subsection \<open>The file enumerator\<close>

definition getFiles :: "env \<Rightarrow> url list \<Rightarrow> string list \<Rightarrow> string list \<Rightarrow> string list \<Rightarrow> string list" where
  "getFiles e urls restrictExtensions excludeExtensions playlistExtensions =
     (let nameFilters = foldl (\<lambda>nf ext. removeAll ext nf) restrictExtensions excludeExtensions;
          found = (\<lambda>u.
            if \<not> isLocalFile u then []
            else (let file = toLocalFile u
                  in if fsIsDir e file
                     then filter (\<lambda>info. 0 < fsSize e info)
                            (fsListDir e (fsAbsolute e file) (extensionsToWildcards e nameFilters))
                     else if suffix file \<in> set playlistExtensions then [fsAbsolute e file]
                     else []))
      in sortFiles (concat (map found urls)))"

text \<open>The overload for one base directory.\<close>

definition getFilesIn :: "env \<Rightarrow> string \<Rightarrow> string list \<Rightarrow> string list \<Rightarrow> string list" where
  "getFilesIn e baseDirectory restrictExtensions excludeExtensions =
     getFiles e [fromLocalFile baseDirectory] restrictExtensions excludeExtensions []"

subsection \<open>The scanner's state (LibraryScannerPrivate) and what it sends out\<close>

datatype fault =
    OutOfRange  \<comment> \<open>\<open>std::unordered_map::at\<close> of a key that is not there throws\<close>
  | EmptyFront  \<comment> \<open>\<open>front()\<close> of an empty container\<close>

datatype Status = StatusIdle | StatusPending | StatusScanning | StatusMonitoring

record LibraryInfo =
  libId :: int
  libPath :: string
  libStatus :: Status

text \<open>
  The calls the scanner makes on the persisted store, in the order it makes them.
  \<open>storeTracks\<close> takes the queue by reference and may write identifiers into the queued
  tracks; TrackDatabase is not part of the sources and the model leaves the queue as it is.
\<close>

datatype dbop = StoreTracks "Track list" | UpdateTracks "Track list"

datatype event =
    ProgressChanged int int
  | ScanUpdate "Track list" "Track list"
  | StatusChanged LibraryInfo
  | LogWarning string
  | Finished

text \<open>
  The unordered maps are association lists with at most one entry per key, looked up with
  \<open>map_of\<close>; where the scanner iterates one, the order is the environment's
  \<open>iterationRank\<close>. The last five fields are the world the scanner acts on: the calls made
  on the store, the signals emitted, how often the worker state was looked at, the state the
  scanner itself has set, and how many calls \<open>stopThread\<close> has posted to the scanner's
  thread that are not delivered yet.
\<close>

record scanner =
  currentLibrary :: LibraryInfo
  monitor :: bool
  tracksToStore :: "Track list"
  tracksToUpdate :: "Track list"
  trackPaths :: "(string \<times> Track list) list"
  existingArchives :: "(string \<times> Track list) list"
  missingFiles :: "(string \<times> Track) list"
  missingHashes :: "(string \<times> Track) list"
  existingCueTracks :: "(string \<times> Track list) list"
  missingCueTracks :: "(string \<times> Track list) list"
  cueFilesScanned :: "string set"
  filesScanned :: "string set"
  totalFiles :: nat
  watchers :: "int list"
  dbLog :: "dbop list"
  events :: "event list"
  polls :: nat
  workerState :: WorkerState
  posted :: nat

definition BatchSize :: nat where
  "BatchSize = 250"

definition contains :: "('k \<times> 'v) list \<Rightarrow> 'k \<Rightarrow> bool" where
  "contains m k = (map_of m k \<noteq> None)"

text \<open>\<open>emplace\<close> leaves the map as it is when the key is there.\<close>

definition emplace :: "'k \<Rightarrow> 'v \<Rightarrow> ('k \<times> 'v) list \<Rightarrow> ('k \<times> 'v) list" where
  "emplace k v m = (if contains m k then m else m @ [(k, v)])"

definition erase :: "'k \<Rightarrow> ('k \<times> 'v) list \<Rightarrow> ('k \<times> 'v) list" where
  "erase k m = AList.delete k m"

text \<open>\<open>m[k].push_back(v)\<close>: \<open>operator[]\<close> makes the empty list when the key is new.\<close>

definition pushBackAt :: "'k \<Rightarrow> 'v \<Rightarrow> ('k \<times> 'v list) list \<Rightarrow> ('k \<times> 'v list) list" where
  "pushBackAt k v m =
     (case map_of m k of None \<Rightarrow> m @ [(k, [v])] | Some vs \<Rightarrow> AList.update k (vs @ [v]) m)"

text \<open>\<open>static_cast<int>\<close> of a size.\<close>

definition toInt :: "nat \<Rightarrow> int" where
  "toInt n = sint (word_of_nat n :: 32 word)"

text \<open>
  Modelled from the spec: \<open>Worker::state\<close> and \<open>Worker::mayRun\<close> (the worker class is not
  part of the sources), the "cooperative mayRun predicate": the scanner may run while the
  state is Running. The state is the one the scanner has set unless another thread has
  requested one; each look at it is counted.
\<close>

definition state :: "env \<Rightarrow> scanner \<Rightarrow> WorkerState" where
  "state e s = (case requested e (polls s) of Some w \<Rightarrow> w | None \<Rightarrow> workerState s)"

definition mayRun :: "env \<Rightarrow> scanner \<Rightarrow> bool \<times> scanner" where
  "mayRun e s = (state e s = Running, s\<lparr>polls := Suc (polls s)\<rparr>)"

definition emit :: "event \<Rightarrow> scanner \<Rightarrow> scanner" where
  "emit ev s = s\<lparr>events := events s @ [ev]\<rparr>"

definition storeTracks :: "Track list \<Rightarrow> scanner \<Rightarrow> scanner" where
  "storeTracks ts s = s\<lparr>dbLog := dbLog s @ [StoreTracks ts]\<rparr>"

definition updateTracks :: "Track list \<Rightarrow> scanner \<Rightarrow> scanner" where
  "updateTracks ts s = s\<lparr>dbLog := dbLog s @ [UpdateTracks ts]\<rparr>"

subsection \<open>Progress, identity matching, batches\<close>

definition reportProgress :: "scanner \<Rightarrow> scanner" where
  "reportProgress s =
     emit (ProgressChanged (toInt (card (filesScanned s))) (toInt (totalFiles s))) s"

definition fileScanned :: "string \<Rightarrow> scanner \<Rightarrow> scanner" where
  "fileScanned file s = reportProgress (s\<lparr>filesScanned := insert file (filesScanned s)\<rparr>)"

definition cleanupScan :: "scanner \<Rightarrow> scanner" where
  "cleanupScan s =
     s\<lparr>filesScanned := {}, totalFiles := 0, tracksToStore := [], tracksToUpdate := [],
       trackPaths := [], existingArchives := [], missingFiles := [], missingHashes := [],
       existingCueTracks := [], missingCueTracks := [], cueFilesScanned := {}\<rparr>"

definition matchMissingTrack :: "scanner \<Rightarrow> Track \<Rightarrow> Track" where
  "matchMissingTrack s track =
     (let byHash =
            (case map_of (missingHashes s) (hash track) of
               Some t \<Rightarrow> if duration t = duration track then t else emptyTrack
             | None \<Rightarrow> emptyTrack)
      in case map_of (missingFiles s) (filename track) of
           Some t \<Rightarrow> if duration t = duration track then t else byHash
         | None \<Rightarrow> byHash)"

definition checkBatchFinished :: "scanner \<Rightarrow> scanner" where
  "checkBatchFinished s =
     (if BatchSize \<le> length (tracksToStore s) \<or> BatchSize < length (tracksToUpdate s)
      then (let s1 = (if BatchSize \<le> length (tracksToStore s)
                      then storeTracks (tracksToStore s) s else s);
                s2 = (if BatchSize \<le> length (tracksToUpdate s1)
                      then updateTracks (tracksToUpdate s1) s1 else s1);
                s3 = emit (ScanUpdate (tracksToStore s2) []) s2
            in s3\<lparr>tracksToStore := [], tracksToUpdate := []\<rparr>)
      else s)"

subsection \<open>Reading tracks\<close>

definition readFileProperties :: "env \<Rightarrow> Track \<Rightarrow> Track" where
  "readFileProperties e track =
     (let t1 = (if addedTime track = 0
                then track\<lparr>addedTime := word_of_int (currentMSecs e)\<rparr> else track);
          t2 = (if modifiedTime t1 = 0
                then t1\<lparr>modifiedTime := lastModifiedOf e (filepath track)\<rparr> else t1)
      in if fileSize t2 = 0
         then t2\<lparr>fileSize := word_of_int (fsSize e (filepath track))\<rparr> else t2)"

text \<open>The sub-songs \<open>0 .. count - 1\<close> of the loop \<open>for(int subIndex{0}; subIndex < count; ++subIndex)\<close>.\<close>

definition subIndices :: "int \<Rightarrow> int list" where
  "subIndices n = map int [0 ..< nat n]"

definition readSubsong :: "env \<Rightarrow> Track \<Rightarrow> Track list" where
  "readSubsong e subTrack =
     (case readTrack e subTrack of Some t \<Rightarrow> [generateHash e t] | None \<Rightarrow> [])"

definition readEntry :: "env \<Rightarrow> string \<Rightarrow> string \<Rightarrow> archiveEntry \<Rightarrow> Track list" where
  "readEntry e filepath' archivePrefix entry =
     (if \<not> entryOpens entry then []
      else if \<not> hasReader e (entryName entry) then []
      else if \<not> entryInit entry then []
      else concat (map (\<lambda>subIndex.
             readSubsong e
               ((newTrack (archivePrefix @ entryName entry) subIndex)
                  \<lparr>fileSize := word_of_int (entrySize entry),
                   modifiedTime := lastModifiedOf e filepath'\<rparr>))
             (subIndices (entrySubsongs entry))))"

definition readArchiveTracks :: "env \<Rightarrow> string \<Rightarrow> Track list" where
  "readArchiveTracks e filepath' =
     (if \<not> hasArchiveReader e filepath' then []
      else if \<not> archiveInit e filepath' then []
      else (let archivePrefix =
                  ''unpack://'' @ archiveType e filepath' @ ''|'' @ showNat (length filepath')
                    @ ''|file://'' @ filepath' @ ''!'';
                tracks = concat (map (readEntry e filepath' archivePrefix)
                                   (archiveEntries e filepath'))
            in if archiveReadOk e filepath' then tracks else []))"

definition readTracks :: "env \<Rightarrow> string \<Rightarrow> Track list" where
  "readTracks e filepath' =
     (if loaderIsArchive e filepath' then readArchiveTracks e filepath'
      else if \<not> hasReader e filepath' then []
      else if \<not> fsCanOpen e filepath' then []
      else if \<not> readerInit e filepath' then []
      else concat (map (\<lambda>subIndex.
             readSubsong e
               ((newTrack filepath' subIndex)\<lparr>fileSize := word_of_int (fsSize e filepath')\<rparr>))
             (subIndices (subsongCount e filepath'))))"

definition readPlaylistTracks :: "env \<Rightarrow> string \<Rightarrow> bool \<Rightarrow> Track list" where
  "readPlaylistTracks e path addMissing =
     (if path = [] then []
      else if \<not> fsCanOpen e path then []
      else if hasParser e (suffix path) then parsePlaylistFile e path (\<not> addMissing)
      else [])"

definition readEmbeddedPlaylistTracks :: "env \<Rightarrow> Track \<Rightarrow> fault + Track list" where
  "readEmbeddedPlaylistTracks e track =
     (case extraTag track ''CUESHEET'' of
        [] \<Rightarrow> Inl EmptyFront
      | cue # _ \<Rightarrow>
          if \<not> bufferOpens e cue then Inr []
          else if hasParser e ''cue''
          then Inr (map (generateHash e) (parseEmbeddedCue e cue (filepath track)))
          else Inr [])"

definition setTrackProps :: "env \<Rightarrow> scanner \<Rightarrow> Track \<Rightarrow> string \<Rightarrow> Track" where
  "setTrackProps e s track file =
     (let t1 = setFilePath file (readFileProperties e track);
          t2 = (if 0 \<le> libId (currentLibrary s)
                then t1\<lparr>libraryId := libId (currentLibrary s)\<rparr> else t1)
      in (generateHash e t2)\<lparr>isEnabled := True\<rparr>)"

subsection \<open>Cue sheets\<close>

text \<open>
  The local map \<open>existingTrackPaths\<close> of \<open>updateExistingCueTracks\<close> and
  \<open>updateExistingTrack\<close>, and the identifier a cue track takes from it.
\<close>

definition indexByUniquePath :: "Track list \<Rightarrow> ((string \<times> int) \<times> Track) list" where
  "indexByUniquePath tracks = foldl (\<lambda>m t. emplace (uniqueFilepath t) t m) [] tracks"

definition withExistingId :: "((string \<times> int) \<times> Track) list \<Rightarrow> Track \<Rightarrow> Track" where
  "withExistingId existingTrackPaths track =
     (case map_of existingTrackPaths (uniqueFilepath track) of
        Some t \<Rightarrow> track\<lparr>trackId := trackId t\<rparr>
      | None \<Rightarrow> track)"

definition updateExistingCueTracks :: "env \<Rightarrow> Track list \<Rightarrow> string \<Rightarrow> scanner \<Rightarrow> scanner" where
  "updateExistingCueTracks e tracks cue s =
     (let existingTrackPaths = indexByUniquePath tracks
      in foldl (\<lambda>s' cueTrack.
           (let t0 = withExistingId existingTrackPaths cueTrack;
                track = setTrackProps e s' t0 (filepath t0)
            in s'\<lparr>tracksToUpdate := tracksToUpdate s' @ [track],
                  cueFilesScanned := insert (filepath track) (cueFilesScanned s')\<rparr>))
         s (readPlaylistTracks e cue False))"

definition addNewCueTracks :: "env \<Rightarrow> string \<Rightarrow> string \<Rightarrow> scanner \<Rightarrow> fault + scanner" where
  "addNewCueTracks e cue filename' s =
     (if contains (missingCueTracks s) filename'
      then (case map_of (missingCueTracks s) cue of
              None \<Rightarrow> Inl OutOfRange
            | Some refoundCueTracks \<Rightarrow>
                Inr (s\<lparr>tracksToUpdate :=
                          tracksToUpdate s @ map (\<lambda>track. track\<lparr>cuePath := cue\<rparr>) refoundCueTracks\<rparr>))
      else Inr (foldl (\<lambda>s' cueTrack.
                  (let track = setTrackProps e s' cueTrack (filepath cueTrack)
                   in s'\<lparr>tracksToStore := tracksToStore s' @ [track],
                         cueFilesScanned := insert (filepath track) (cueFilesScanned s')\<rparr>))
                s (readPlaylistTracks e cue False)))"

definition readCue :: "env \<Rightarrow> string \<Rightarrow> bool \<Rightarrow> scanner \<Rightarrow> fault + scanner" where
  "readCue e cue onlyModified s =
     (let lastModified = lastModifiedOf e cue
      in case map_of (existingCueTracks s) cue of
           Some tracks \<Rightarrow>
             (case tracks of
                [] \<Rightarrow> Inl EmptyFront
              | front # _ \<Rightarrow>
                  if modifiedTime front < lastModified \<or> \<not> onlyModified
                  then Inr (updateExistingCueTracks e tracks cue s)
                  else Inr (s\<lparr>cueFilesScanned := cueFilesScanned s \<union> set (map filepath tracks)\<rparr>))
         | None \<Rightarrow> addNewCueTracks e cue (fileName cue) s)"

subsection \<open>Reconciling one file\<close>

definition updateExistingTrack :: "env \<Rightarrow> Track \<Rightarrow> string \<Rightarrow> scanner \<Rightarrow> fault + scanner" where
  "updateExistingTrack e track0 file s0 =
     (let track1 = setTrackProps e s0 track0 file;
          s1 = s0\<lparr>missingFiles := erase (filename track1) (missingFiles s0)\<rparr>;
          (track, s) =
            (if trackId track1 < 0
             then (let id' = idForTrack e track1
                   in if id' < 0 then (track1, emit (LogWarning file) s1)
                      else (track1\<lparr>trackId := id'\<rparr>, s1))
             else (track1, s1))
      in if hasExtraTag track ''CUESHEET''
         then (let existingTrackPaths =
                     (case map_of (existingCueTracks s) (filepath track) of
                        Some tracks \<Rightarrow> indexByUniquePath tracks
                      | None \<Rightarrow> [])
               in case readEmbeddedPlaylistTracks e track of
                    Inl f \<Rightarrow> Inl f
                  | Inr cueTracks \<Rightarrow>
                      Inr (foldl (\<lambda>s' cueTrack0.
                             (let cueTrack =
                                    setTrackProps e s' (withExistingId existingTrackPaths cueTrack0) file
                              in s'\<lparr>tracksToUpdate := tracksToUpdate s' @ [cueTrack],
                                    missingHashes := erase (hash cueTrack) (missingHashes s')\<rparr>))
                           s cueTracks))
         else Inr (s\<lparr>tracksToUpdate := tracksToUpdate s @ [track],
                     missingHashes := erase (hash track) (missingHashes s)\<rparr>))"

text \<open>A loop whose body can fault stops at the first fault.\<close>

fun foldE :: "('s \<Rightarrow> 'a \<Rightarrow> fault + 's) \<Rightarrow> 's \<Rightarrow> 'a list \<Rightarrow> fault + 's" where
  "foldE f s [] = Inr s"
| "foldE f s (x # xs) = (case f s x of Inl err \<Rightarrow> Inl err | Inr s' \<Rightarrow> foldE f s' xs)"

text \<open>The body of the loop of \<open>readNewTrack\<close> over the tracks read from the file.\<close>

definition newTrackStep :: "env \<Rightarrow> string \<Rightarrow> scanner \<Rightarrow> Track \<Rightarrow> fault + scanner" where
  "newTrackStep e file s track0 =
     (let refoundTrack = matchMissingTrack s track0
      in if isInLibrary refoundTrack \<or> isInDatabase refoundTrack
         then (let s1 = s\<lparr>missingHashes := erase (hash refoundTrack) (missingHashes s)\<rparr>;
                   s2 = s1\<lparr>missingFiles := erase (filename refoundTrack) (missingFiles s1)\<rparr>
               in Inr (s2\<lparr>tracksToUpdate :=
                             tracksToUpdate s2 @ [setTrackProps e s2 refoundTrack file]\<rparr>))
         else (let track = (setTrackProps e s track0 (filepath track0))
                             \<lparr>addedTime := word_of_int (currentMSecs e)\<rparr>
               in if hasExtraTag track ''CUESHEET''
                  then (case readEmbeddedPlaylistTracks e track of
                          Inl f \<Rightarrow> Inl f
                        | Inr cueTracks \<Rightarrow>
                            Inr (s\<lparr>tracksToStore :=
                                      tracksToStore s
                                        @ map (\<lambda>cueTrack. setTrackProps e s cueTrack file) cueTracks\<rparr>))
                  else Inr (s\<lparr>tracksToStore := tracksToStore s @ [track]\<rparr>)))"

definition readNewTrack :: "env \<Rightarrow> string \<Rightarrow> scanner \<Rightarrow> fault + scanner" where
  "readNewTrack e file s =
     (let tracks = readTracks e file
      in if tracks = [] then Inr s else foldE (newTrackStep e file) s tracks)"

text \<open>The test both branches of \<open>readFile\<close> make on the first track known under the path.\<close>

definition needsUpdate :: "scanner \<Rightarrow> Track \<Rightarrow> 64 word \<Rightarrow> bool \<Rightarrow> bool" where
  "needsUpdate s libraryTrack lastModified onlyModified =
     (\<not> isEnabled libraryTrack \<or> libraryId libraryTrack \<noteq> libId (currentLibrary s)
      \<or> modifiedTime libraryTrack < lastModified \<or> \<not> onlyModified)"

definition readFile :: "env \<Rightarrow> string \<Rightarrow> bool \<Rightarrow> scanner \<Rightarrow> fault + scanner" where
  "readFile e file onlyModified s0 =
     (let (ok, s) = mayRun e s0
      in if \<not> ok then Inr s
         else if file \<in> cueFilesScanned s then Inr s
         else (let lastModified = lastModifiedOf e file
               in case map_of (trackPaths s) file of
                    Some known \<Rightarrow>
                      (case known of
                         [] \<Rightarrow> Inl EmptyFront
                       | libraryTrack # _ \<Rightarrow>
                           if needsUpdate s libraryTrack lastModified onlyModified
                           then (case readTrackMetadata e libraryTrack of
                                   None \<Rightarrow> Inr s
                                 | Some changedTrack \<Rightarrow>
                                     updateExistingTrack e
                                       (if fsLastModified e file \<noteq> None
                                        then changedTrack\<lparr>modifiedTime := lastModified\<rparr>
                                        else changedTrack)
                                       file s)
                           else Inr s)
                  | None \<Rightarrow>
                      (case map_of (existingArchives s) file of
                         Some known \<Rightarrow>
                           (case known of
                              [] \<Rightarrow> Inl EmptyFront
                            | libraryTrack # _ \<Rightarrow>
                                if needsUpdate s libraryTrack lastModified onlyModified
                                then foldE (\<lambda>s' track. updateExistingTrack e track (filepath track) s')
                                       s (readArchiveTracks e file)
                                else Inr s)
                       | None \<Rightarrow> readNewTrack e file s)))"

subsection \<open>The index of the known tracks\<close>

definition flagMissing :: "Track \<Rightarrow> scanner \<Rightarrow> scanner" where
  "flagMissing track s =
     s\<lparr>missingFiles := emplace (filename track) track (missingFiles s),
       missingHashes := emplace (hash track) track (missingHashes s)\<rparr>"

text \<open>The body of the loop of \<open>populateExistingTracks\<close>.\<close>

definition populateStep :: "env \<Rightarrow> bool \<Rightarrow> scanner \<Rightarrow> Track \<Rightarrow> scanner" where
  "populateStep e includeMissing s0 track =
     (let s1 = s0\<lparr>trackPaths := pushBackAt (filepath track) track (trackPaths s0)\<rparr>;
          s2 = (if isInArchive track
                then s1\<lparr>existingArchives := pushBackAt (archivePath track) track (existingArchives s1)\<rparr>
                else s1)
      in if includeMissing
         then (let s3 =
                     (if hasCue track
                      then (let cuePath' = (if cuePath track = ''Embedded''
                                            then filepath track else cuePath track);
                                s' = s2\<lparr>existingCueTracks :=
                                          pushBackAt cuePath' track (existingCueTracks s2)\<rparr>
                            in if \<not> fsExists e cuePath'
                               then s'\<lparr>missingCueTracks :=
                                         pushBackAt cuePath' track (missingCueTracks s')\<rparr>
                               else s')
                      else s2)
               in if \<not> isInArchive track
                  then (if \<not> fsExists e (filepath track) then flagMissing track s3 else s3)
                  else (if \<not> fsExists e (archivePath track) then flagMissing track s3 else s3))
         else s2)"

definition populateExistingTracks :: "env \<Rightarrow> Track list \<Rightarrow> bool \<Rightarrow> scanner \<Rightarrow> scanner" where
  "populateExistingTracks e tracks includeMissing s = foldl (populateStep e includeMissing) s tracks"

subsection \<open>A run over a directory\<close>

text \<open>The loop of \<open>getAndSaveAllTracks\<close> over the enumerated files; False when it was told to stop.\<close>

fun scanLoop :: "env \<Rightarrow> bool \<Rightarrow> string list \<Rightarrow> scanner \<Rightarrow> fault + (bool \<times> scanner)" where
  "scanLoop e onlyModified [] s = Inr (True, s)"
| "scanLoop e onlyModified (file # files) s0 =
     (let (ok, s) = mayRun e s0
      in if \<not> ok then Inr (False, s)
         else (let filepath' = fsAbsolute e file
               in case (if suffix file = ''cue'' then readCue e filepath' onlyModified s
                        else readFile e filepath' onlyModified s) of
                    Inl f \<Rightarrow> Inl f
                  | Inr s' \<Rightarrow>
                      scanLoop e onlyModified files (checkBatchFinished (fileScanned filepath' s'))))"

text \<open>
  The loop over the values of \<open>m_missingFiles\<close> after the files: a track that is in a
  library or enabled is changed in place and a copy is queued as an update. The map is an
  unordered one: the loop visits its entries by the rank of their keys.
\<close>

definition demote :: "Track \<Rightarrow> Track" where
  "demote track = track\<lparr>libraryId := - 1, isEnabled := False\<rparr>"

definition iterated :: "env \<Rightarrow> (string \<times> 'v) list \<Rightarrow> (string \<times> 'v) list" where
  "iterated e m = sort_key (\<lambda>(k, v). iterationRank e k) m"

definition demoteMissing :: "env \<Rightarrow> scanner \<Rightarrow> scanner" where
  "demoteMissing e s =
     s\<lparr>missingFiles :=
         map (\<lambda>(k, track). (k, if isInLibrary track \<or> isEnabled track then demote track else track))
           (missingFiles s),
       tracksToUpdate :=
         tracksToUpdate s
           @ map demote (filter (\<lambda>track. isInLibrary track \<or> isEnabled track)
                           (map snd (iterated e (missingFiles s))))\<rparr>"

text \<open>
  The files \<open>getAndSaveAllTracks\<close> enumerates: the excluded types default to cue when the
  setting is absent, the restricted types to what the audio loader supports and cue when the
  setting is empty.
\<close>

definition libraryFiles :: "env \<Rightarrow> string \<Rightarrow> string list" where
  "libraryFiles e path =
     (let excludeExtensions = (case libraryExcludeTypes e of Some x \<Rightarrow> x | None \<Rightarrow> [''cue'']);
          restrictExtensions = (if libraryRestrictTypes e = []
                                then supportedFileExtensions e @ [''cue'']
                                else libraryRestrictTypes e)
      in getFilesIn e path restrictExtensions excludeExtensions)"

definition getAndSaveAllTracks ::
  "env \<Rightarrow> string \<Rightarrow> Track list \<Rightarrow> bool \<Rightarrow> scanner \<Rightarrow> fault + (bool \<times> scanner)" where
  "getAndSaveAllTracks e path tracks onlyModified s0 =
     (let s1 = populateExistingTracks e tracks True s0;
          files = libraryFiles e path;
          s2 = reportProgress (s1\<lparr>totalFiles := length files\<rparr>)
      in case scanLoop e onlyModified files s2 of
           Inl f \<Rightarrow> Inl f
         | Inr (completed, s3) \<Rightarrow>
             if \<not> completed then Inr (False, s3)
             else (let s4 = demoteMissing e s3;
                       s5 = updateTracks (tracksToUpdate s4) (storeTracks (tracksToStore s4) s4)
                   in Inr (True,
                        if tracksToStore s5 \<noteq> [] \<or> tracksToUpdate s5 \<noteq> []
                        then emit (ScanUpdate (tracksToStore s5) (tracksToUpdate s5)) s5
                        else s5)))"

subsection \<open>The scan of a library and the stop request\<close>

definition changeLibraryStatus :: "Status \<Rightarrow> scanner \<Rightarrow> scanner" where
  "changeLibraryStatus st s =
     (let s' = s\<lparr>currentLibrary := (currentLibrary s)\<lparr>libStatus := st\<rparr>\<rparr>
      in emit (StatusChanged (currentLibrary s')) s')"

definition setState :: "WorkerState \<Rightarrow> scanner \<Rightarrow> scanner" where
  "setState w s = s\<lparr>workerState := w\<rparr>"

text \<open>Of a watcher only the library it belongs to is kept.\<close>

definition addWatcher :: "LibraryInfo \<Rightarrow> scanner \<Rightarrow> scanner" where
  "addWatcher library s = s\<lparr>watchers := List.insert (libId library) (watchers s)\<rparr>"

text \<open>
  \<open>stopThread\<close> emits nothing itself. When the worker is running it posts a call to the
  scanner's thread (\<open>QMetaObject::invokeMethod\<close> with \<open>Qt::QueuedConnection\<close>), then it sets
  the state. The posted call runs when the scanner's thread is back in its event loop, that
  is after the scan function it is running has returned, and it reads \<open>m_totalFiles\<close> then:
  \<open>deliverPosted\<close> runs the calls that wait.
\<close>

definition stopThread :: "env \<Rightarrow> scanner \<Rightarrow> scanner" where
  "stopThread e s =
     setState Idle (if state e s = Running then s\<lparr>posted := Suc (posted s)\<rparr> else s)"

fun runPosted :: "nat \<Rightarrow> scanner \<Rightarrow> scanner" where
  "runPosted 0 s = s"
| "runPosted (Suc n) s =
     runPosted n (emit (ProgressChanged (toInt (totalFiles s)) (toInt (totalFiles s))) s)"

definition deliverPosted :: "scanner \<Rightarrow> scanner" where
  "deliverPosted s = runPosted (posted s) (s\<lparr>posted := 0\<rparr>)"

definition scanLibrary ::
  "env \<Rightarrow> LibraryInfo \<Rightarrow> Track list \<Rightarrow> bool \<Rightarrow> scanner \<Rightarrow> fault + scanner" where
  "scanLibrary e library tracks onlyModified s0 =
     (let s1 = changeLibraryStatus StatusScanning ((setState Running s0)\<lparr>currentLibrary := library\<rparr>);
          scanned =
            (if 0 \<le> libId (currentLibrary s1) \<and> fsExists e (libPath (currentLibrary s1))
             then (let s2 = (if monitor s1 \<and> libId library \<notin> set (watchers s1)
                             then addWatcher library s1 else s1)
                   in case getAndSaveAllTracks e (libPath library) tracks onlyModified s2 of
                        Inl f \<Rightarrow> Inl f
                      | Inr (completed, s3) \<Rightarrow> Inr (cleanupScan s3))
             else Inr s1)
      in case scanned of
           Inl f \<Rightarrow> Inl f
         | Inr s4 \<Rightarrow>
             if state e s4 = Paused then Inr (changeLibraryStatus StatusPending s4)
             else Inr (emit Finished
                        (setState Idle
                          (changeLibraryStatus
                            (if monitor s4 then StatusMonitoring else StatusIdle) s4))))"

text \<open>The scan of one directory of a library is always a scan of what was modified.\<close>

definition scanLibraryDirectory ::
  "env \<Rightarrow> LibraryInfo \<Rightarrow> string \<Rightarrow> Track list \<Rightarrow> scanner \<Rightarrow> fault + scanner" where
  "scanLibraryDirectory e library dir tracks s0 =
     (let s1 = changeLibraryStatus StatusScanning ((setState Running s0)\<lparr>currentLibrary := library\<rparr>)
      in case getAndSaveAllTracks e dir tracks True s1 of
           Inl f \<Rightarrow> Inl f
         | Inr (completed, s3) \<Rightarrow>
             (let s4 = cleanupScan s3
              in if state e s4 = Paused then Inr (changeLibraryStatus StatusPending s4)
                 else Inr (emit Finished
                            (setState Idle
                              (changeLibraryStatus
                                (if monitor s4 then StatusMonitoring else StatusIdle) s4)))))"

section \<open>Notions the statements use\<close>

subsection \<open>Missing files\<close>

text \<open>
  The test \<open>populateExistingTracks\<close> makes before it flags a track as missing: the file of
  the track, or the archive that holds it, does not exist.
\<close>

definition fileGone :: "env \<Rightarrow> Track \<Rightarrow> bool" where
  "fileGone e t =
     (if isInArchive t then \<not> fsExists e (archivePath t) else \<not> fsExists e (filepath t))"

subsection \<open>What a step of the scan leaves alone\<close>

text \<open>
  Reading a file or a cue sheet changes the queues, the indexes of missing tracks, the set
  of files covered by cue sheets, the signals and the count of looks at the worker state.
  It leaves alone the calls made on the store, the current library, the indexes of known
  tracks and cue sheets, the progress counters, the worker state and the posted calls.
\<close>

definition preserved :: "scanner \<Rightarrow> scanner \<Rightarrow> bool" where
  "preserved s s' =
     (dbLog s' = dbLog s \<and> currentLibrary s' = currentLibrary s
      \<and> existingCueTracks s' = existingCueTracks s \<and> missingCueTracks s' = missingCueTracks s
      \<and> trackPaths s' = trackPaths s \<and> existingArchives s' = existingArchives s
      \<and> totalFiles s' = totalFiles s \<and> filesScanned s' = filesScanned s
      \<and> workerState s' = workerState s \<and> monitor s' = monitor s \<and> watchers s' = watchers s
      \<and> posted s' = posted s)"

text \<open>Every cue path with missing tracks is a cue path with known tracks.\<close>

definition cueIndexesAgree :: "scanner \<Rightarrow> bool" where
  "cueIndexesAgree s =
     list_all (\<lambda>k. contains (existingCueTracks s) k) (map fst (missingCueTracks s))"

subsection \<open>Full batches\<close>

fun payload :: "dbop \<Rightarrow> Track list" where
  "payload (StoreTracks ts) = ts"
| "payload (UpdateTracks ts) = ts"

definition fullBatch :: "dbop \<Rightarrow> bool" where
  "fullBatch op = (BatchSize \<le> length (payload op))"

subsection \<open>The persisted store between two runs\<close>

text \<open>
  Modelled from the spec: what the persisted store (TrackDatabase, not part of the
  sources) holds after the scanner's calls, "a synchronous batch sink" with
  \<open>storeTracks(list)\<close> for inserts and \<open>updateTracks(list)\<close> for updates: an insert adds the
  tracks, an update replaces the stored track of the same identifier. The next run of
  \<open>scanLibrary\<close> is given the tracks the store holds.
\<close>

definition updateStored :: "Track list \<Rightarrow> Track \<Rightarrow> Track" where
  "updateStored updates t =
     (case find (\<lambda>u. trackId u = trackId t) updates of Some u \<Rightarrow> u | None \<Rightarrow> t)"

fun applyDbOp :: "Track list \<Rightarrow> dbop \<Rightarrow> Track list" where
  "applyDbOp stored (StoreTracks ts) = stored @ ts"
| "applyDbOp stored (UpdateTracks ts) = map (updateStored ts) stored"

definition persisted :: "Track list \<Rightarrow> dbop list \<Rightarrow> Track list" where
  "persisted stored ops = foldl applyDbOp stored ops"

section \<open>Concrete libraries for the examples\<close>

text \<open>
  An environment in which nothing exists and no collaborator answers, a scanner that has
  not run yet, and a track; the examples below change them field by field. A track's hash is
  taken from its metadata.
\<close>

definition baseEnv :: env where
  "baseEnv =
     \<lparr>fsIsDir = (\<lambda>p. False), fsExists = (\<lambda>p. False), fsSize = (\<lambda>p. 0),
      fsLastModified = (\<lambda>p. None), fsAbsolute = (\<lambda>p. p), fsListDir = (\<lambda>d w. []),
      fsCanOpen = (\<lambda>p. False), currentMSecs = 1000,
      extensionsToWildcards = map (\<lambda>x. ''*.'' @ x), libraryRestrictTypes = [],
      libraryExcludeTypes = None, supportedFileExtensions = [''flac''],
      loaderIsArchive = (\<lambda>p. False), hasReader = (\<lambda>p. False), readerInit = (\<lambda>p. False),
      subsongCount = (\<lambda>p. 0), readTrack = (\<lambda>t. None), readTrackMetadata = (\<lambda>t. None),
      hasArchiveReader = (\<lambda>p. False), archiveInit = (\<lambda>p. False), archiveType = (\<lambda>p. []),
      archiveEntries = (\<lambda>p. []), archiveReadOk = (\<lambda>p. False), hasParser = (\<lambda>x. False),
      parsePlaylistFile = (\<lambda>p b. []), bufferOpens = (\<lambda>c. True),
      parseEmbeddedCue = (\<lambda>c p. []), hashOf = tags, idForTrack = (\<lambda>t. - 1),
      requested = (\<lambda>n. None), iterationRank = (\<lambda>k. 0)\<rparr>"

definition musicLibrary :: LibraryInfo where
  "musicLibrary = \<lparr>libId = 0, libPath = ''/music'', libStatus = StatusIdle\<rparr>"

definition baseScanner :: scanner where
  "baseScanner =
     \<lparr>currentLibrary = musicLibrary, monitor = False, tracksToStore = [], tracksToUpdate = [],
      trackPaths = [], existingArchives = [], missingFiles = [], missingHashes = [],
      existingCueTracks = [], missingCueTracks = [], cueFilesScanned = {}, filesScanned = {},
      totalFiles = 0, watchers = [], dbLog = [], events = [], polls = 0, workerState = Idle,
      posted = 0\<rparr>"

definition trackAt :: "string \<Rightarrow> int \<Rightarrow> string \<Rightarrow> Track" where
  "trackAt p i h = emptyTrack\<lparr>trackId := i, libraryId := 0, filepath := p, hash := h, tags := h\<rparr>"


definition newSong :: Track where
  "newSong = trackAt ''/music/new.flac'' (- 1) ''new''"

definition knownSong :: Track where
  "knownSong = (trackAt ''/music/known.flac'' 7 ''known'')\<lparr>modifiedTime := 200\<rparr>"








text \<open>A song that carries an embedded cue sheet and is not in the database.\<close>

definition cueSong :: Track where
  "cueSong = (trackAt ''/music/c.flac'' (- 1) ''c'')\<lparr>extraTags := [(''CUESHEET'', [''TRACK 01 AUDIO''])]\<rparr>"

subsection \<open>A song whose file was replaced by a copy under another name\<close>

text \<open>
  The library knows a song at \<open>/music/old.flac\<close>; that file is gone and
  \<open>/music/new.flac\<close>, written later, decodes to the same hash and duration.
\<close>

definition oldSong :: Track where
  "oldSong =
     (trackAt ''/music/old.flac'' 3 ''h'')
       \<lparr>duration := 5, modifiedTime := 100, addedTime := 50, fileSize := 9\<rparr>"

subsection \<open>Cue sheets that moved\<close>

text \<open>
  A track of a cue sheet at \<open>/music/album.cue\<close> that no longer exists, indexed as
  \<open>populateExistingTracks\<close> indexes it, and the same with a second track whose cue path is the
  bare name \<open>album.cue\<close>.
\<close>

definition cueTrack1 :: Track where
  "cueTrack1 = (trackAt ''/music/album.flac'' 11 ''t1'')\<lparr>cuePath := ''/music/album.cue''\<rparr>"

definition cueTrack2 :: Track where
  "cueTrack2 = (trackAt ''/other/disc.flac'' 12 ''t2'')\<lparr>cuePath := ''album.cue''\<rparr>"

definition cueEnv :: env where
  "cueEnv =
     baseEnv\<lparr>fsExists := (\<lambda>p. p = ''/music/album.flac''), fsCanOpen := (\<lambda>p. True),
       hasParser := (\<lambda>x. x = ''cue''),
       parsePlaylistFile := (\<lambda>p b. [newTrack ''/music/album.flac'' 0])\<rparr>"

subsection \<open>A scan that is told to stop, and a library that lost files\<close>

text \<open>
  The directory \<open>/music\<close> holds two readable songs the library does not know. In
  \<open>stopEnv\<close> another thread has stopped the worker by the scanner's third look at the
  worker state, which is the look in front of the second file.
\<close>

definition twoSongsEnv :: env where
  "twoSongsEnv =
     baseEnv\<lparr>fsIsDir := (\<lambda>p. p = ''/music''),
       fsExists := (\<lambda>p. p \<in> {''/music'', ''/music/a.flac'', ''/music/b.flac''}),
       fsListDir := (\<lambda>d w. if d = ''/music'' \<and> w = [''*.flac'']
                            then [''/music/a.flac'', ''/music/b.flac''] else []),
       fsSize := (\<lambda>p. 7), fsCanOpen := (\<lambda>p. True), hasReader := (\<lambda>p. True),
       readerInit := (\<lambda>p. True), subsongCount := (\<lambda>p. 1),
       readTrack := (\<lambda>t. Some (t\<lparr>tags := filepath t\<rparr>))\<rparr>"

definition stopEnv :: env where
  "stopEnv = twoSongsEnv\<lparr>requested := (\<lambda>n. if 2 \<le> n then Some Idle else None)\<rparr>"

definition songA :: Track where
  "songA =
     emptyTrack\<lparr>libraryId := 0, filepath := ''/music/a.flac'', hash := ''/music/a.flac'',
       fileSize := 7, addedTime := 1000, tags := ''/music/a.flac''\<rparr>"

text \<open>
  The scanner of a run over the two songs in front of the first file, and after it. The
  stop request of another thread is the call of \<open>stopThread\<close> between the two.
\<close>

definition startOfScan :: scanner where
  "startOfScan =
     baseScanner\<lparr>workerState := Running, totalFiles := 2, events := [ProgressChanged 0 2]\<rparr>"

definition afterFirstFile :: scanner where
  "afterFirstFile =
     startOfScan\<lparr>events := [ProgressChanged 0 2, ProgressChanged 1 2], polls := 2,
       tracksToStore := [songA], filesScanned := {''/music/a.flac''}\<rparr>"

text \<open>
  An empty directory, and two enabled songs of the library, both named \<open>01.flac\<close>, whose
  files are gone.
\<close>

definition emptyDirEnv :: env where
  "emptyDirEnv = baseEnv\<lparr>fsIsDir := (\<lambda>p. p = ''/music''), fsExists := (\<lambda>p. p = ''/music'')\<rparr>"

definition firstDisc :: Track where
  "firstDisc = trackAt ''/music/a/01.flac'' 1 ''one''"

definition secondDisc :: Track where
  "secondDisc = trackAt ''/music/b/01.flac'' 2 ''two''"

text \<open>
  The same two songs when only the file of the first is gone: the file of the second is
  there and was written, at 200, after the library last read it, at 100. \<open>refreshedDisc\<close>
  is the second song with the properties of the file as it is now.
\<close>

definition staleDisc :: Track where
  "staleDisc = secondDisc\<lparr>modifiedTime := 100\<rparr>"

definition refreshedDisc :: Track where
  "refreshedDisc = staleDisc\<lparr>fileSize := 7, addedTime := 1000, modifiedTime := 200\<rparr>"

definition oneDiscEnv :: env where
  "oneDiscEnv =
     baseEnv\<lparr>fsIsDir := (\<lambda>p. p = ''/music''),
       fsExists := (\<lambda>p. p \<in> {''/music'', ''/music/b/01.flac''}),
       fsListDir := (\<lambda>d w. if d = ''/music'' \<and> w = [''*.flac'']
                            then [''/music/b/01.flac''] else []),
       fsSize := (\<lambda>p. 7),
       fsLastModified := (\<lambda>p. if p = ''/music/b/01.flac'' then Some 200 else None),
       readTrackMetadata := (\<lambda>t. Some t)\<rparr>"

text \<open>
  Two songs of the library whose files are gone decode to the same hash; they differ in
  name and in duration. A new file \<open>/music/restored.flac\<close> has the hash and the duration of
  the second.
\<close>

definition liveTake :: Track where
  "liveTake = (trackAt ''/music/live.flac'' 31 ''h'')\<lparr>duration := 100\<rparr>"

definition studioTake :: Track where
  "studioTake = (trackAt ''/music/studio.flac'' 32 ''h'')\<lparr>duration := 200\<rparr>"

definition restoredEnv :: env where
  "restoredEnv =
     baseEnv\<lparr>fsIsDir := (\<lambda>p. p = ''/music''),
       fsExists := (\<lambda>p. p \<in> {''/music'', ''/music/restored.flac''}),
       fsListDir := (\<lambda>d w. if d = ''/music'' \<and> w = [''*.flac'']
                            then [''/music/restored.flac''] else []),
       fsSize := (\<lambda>p. 9),
       fsCanOpen := (\<lambda>p. True), hasReader := (\<lambda>p. True), readerInit := (\<lambda>p. True),
       subsongCount := (\<lambda>p. 1),
       readTrack := (\<lambda>t. Some (t\<lparr>duration := 200, tags := ''h''\<rparr>))\<rparr>"

definition restoredSong :: Track where
  "restoredSong =
     emptyTrack\<lparr>libraryId := 0, filepath := ''/music/restored.flac'', hash := ''h'',
       duration := 200, fileSize := 9, addedTime := 1000, tags := ''h''\<rparr>"

subsection \<open>Two runs\<close>

text \<open>
  The file of \<open>oldSong\<close>, last modified at 100, was replaced by the copy
  \<open>/music/new.flac\<close>, written at 200, which decodes to the same hash and duration. Nothing
  changes on disk between the two runs.
\<close>

definition copiedEnv :: env where
  "copiedEnv =
     baseEnv\<lparr>fsIsDir := (\<lambda>p. p = ''/music''),
       fsExists := (\<lambda>p. p \<in> {''/music'', ''/music/new.flac''}),
       fsListDir := (\<lambda>d w. if d = ''/music'' \<and> w = [''*.flac'']
                            then [''/music/new.flac''] else []),
       fsSize := (\<lambda>p. 9),
       fsLastModified := (\<lambda>p. if p = ''/music/new.flac'' then Some 200 else None),
       fsCanOpen := (\<lambda>p. True), hasReader := (\<lambda>p. True), readerInit := (\<lambda>p. True),
       subsongCount := (\<lambda>p. 1),
       readTrack := (\<lambda>t. Some (t\<lparr>duration := 5, tags := ''h''\<rparr>)),
       readTrackMetadata := (\<lambda>t. Some t)\<rparr>"

definition movedSong :: Track where
  "movedSong = oldSong\<lparr>filepath := ''/music/new.flac''\<rparr>"

definition afterFirstRun :: scanner where
  "afterFirstRun =
     baseScanner\<lparr>currentLibrary := musicLibrary\<lparr>libStatus := StatusIdle\<rparr>,
       dbLog := [StoreTracks [], UpdateTracks [movedSong]],
       events := [StatusChanged (musicLibrary\<lparr>libStatus := StatusScanning\<rparr>),
                  ProgressChanged 0 1, ProgressChanged 1 1, ScanUpdate [] [movedSong],
                  StatusChanged (musicLibrary\<lparr>libStatus := StatusIdle\<rparr>), Finished],
       polls := Suc (Suc 0)\<rparr>"

section \<open>The file enumerator\<close>





















section \<open>Evaluating a run\<close>

lemmas scan_defs =
  getAndSaveAllTracks_def populateExistingTracks_def populateStep_def flagMissing_def
  reportProgress_def fileScanned_def checkBatchFinished_def BatchSize_def storeTracks_def
  updateTracks_def emit_def mayRun_def state_def readFile_def readCue_def readNewTrack_def
  newTrackStep_def matchMissingTrack_def needsUpdate_def updateExistingTrack_def
  setTrackProps_def readFileProperties_def generateHash_def setFilePath_def lastModifiedOf_def
  readTracks_def subIndices_def readSubsong_def newTrack_def emptyTrack_def
  hasExtraTag_def extraTag_def isInLibrary_def isInDatabase_def filename_def fileName_def
  suffix_def contains_def emplace_def erase_def pushBackAt_def hasCue_def isInArchive_def
  demoteMissing_def iterated_def demote_def toInt_def cleanupScan_def scanLibrary_def changeLibraryStatus_def
  setState_def addWatcher_def stopThread_def deliverPosted_def
  libraryFiles_def getFilesIn_def getFiles_def fromLocalFile_def sortFiles_def
  stable_sort_by_def cueBefore_def isCue_def toLower_def Let_def

section \<open>The batch writer\<close>

text \<open>
  C1 at three queue states a run can reach. With 250 queued inserts and one queued update
  \<open>checkBatchFinished\<close> stores the inserts and clears both queues: the update is gone and
  \<open>updateTracks\<close> was never called. With exactly 250 queued updates and no insert nothing is
  flushed, since the outer test on the update queue is strict where the inner one is not.
  With 251 queued updates and one queued insert the insert is cleared without
  \<open>storeTracks\<close>.
\<close>

theorem checkBatchFinished_clears_unwritten:
  "checkBatchFinished (baseScanner\<lparr>tracksToStore := replicate 250 newSong, tracksToUpdate := [knownSong]\<rparr>)
     = baseScanner\<lparr>dbLog := [StoreTracks (replicate 250 newSong)],
                    events := [ScanUpdate (replicate 250 newSong) []]\<rparr>
   \<and> checkBatchFinished (baseScanner\<lparr>tracksToUpdate := replicate 250 knownSong\<rparr>)
     = baseScanner\<lparr>tracksToUpdate := replicate 250 knownSong\<rparr>
   \<and> checkBatchFinished (baseScanner\<lparr>tracksToStore := [newSong], tracksToUpdate := replicate 251 knownSong\<rparr>)
     = baseScanner\<lparr>dbLog := [UpdateTracks (replicate 251 knownSong)],
                    events := [ScanUpdate [newSong] []]\<rparr>"
  by (simp add: checkBatchFinished_def BatchSize_def storeTracks_def updateTracks_def emit_def
      baseScanner_def)

section \<open>Track properties\<close>

lemma setTrackProps_fields:
  "trackId (setTrackProps e s t f) = trackId t"
  "filepath (setTrackProps e s t f) = f"
  "extraTags (setTrackProps e s t f) = extraTags t"
  "duration (setTrackProps e s t f) = duration t"
  "isEnabled (setTrackProps e s t f)"
  "libraryId (setTrackProps e s t f)
     = (if 0 \<le> libId (currentLibrary s) then libId (currentLibrary s) else libraryId t)"
  by (simp_all add: setTrackProps_def readFileProperties_def generateHash_def setFilePath_def
      Let_def)

lemma hasExtraTag_setTrackProps: "hasExtraTag (setTrackProps e s t f) k = hasExtraTag t k"
  by (simp add: hasExtraTag_def setTrackProps_fields)

lemma filename_setTrackProps: "filename (setTrackProps e s t f) = fileName f"
  by (simp add: filename_def setTrackProps_fields)

lemma setTrackProps_library:
  "currentLibrary s' = currentLibrary s \<Longrightarrow> setTrackProps e s' t f = setTrackProps e s t f"
  by (simp add: setTrackProps_def Let_def)

section \<open>Frame conditions\<close>

lemma preserved_refl: "preserved s s"
  by (simp add: preserved_def)

lemma preserved_trans: "preserved s s' \<Longrightarrow> preserved s' s'' \<Longrightarrow> preserved s s''"
  by (simp add: preserved_def)

lemma foldl_preserved:
  assumes "\<And>s x. preserved s (f s x)"
  shows "preserved s (foldl f s xs)"
proof (induction xs arbitrary: s)
  case Nil
  show ?case by (simp add: preserved_refl)
next
  case (Cons x xs)
  show ?case
    using preserved_trans [OF assms [of s x] Cons.IH [of "f s x"]] by simp
qed

lemma foldE_preserved:
  assumes "\<And>s x s'. f s x = Inr s' \<Longrightarrow> preserved s s'"
    and "foldE f s xs = Inr s'"
  shows "preserved s s'"
  using assms(2)
proof (induction xs arbitrary: s)
  case Nil
  then show ?case by (simp add: preserved_refl)
next
  case (Cons x xs)
  then obtain s1 where s1: "f s x = Inr s1" and rest: "foldE f s1 xs = Inr s'"
    by (auto split: sum.splits)
  show ?case
    using preserved_trans [OF assms(1) [OF s1] Cons.IH [OF rest]] .
qed

lemma updateExistingCueTracks_preserved: "preserved s (updateExistingCueTracks e tracks cue s)"
  unfolding updateExistingCueTracks_def Let_def
  by (rule foldl_preserved) (simp add: preserved_def)

lemma addNewCueTracks_preserved:
  "addNewCueTracks e cue fn s = Inr s' \<Longrightarrow> preserved s s'"
proof (cases "contains (missingCueTracks s) fn")
  case True
  assume "addNewCueTracks e cue fn s = Inr s'"
  with True show ?thesis
    by (auto simp: addNewCueTracks_def preserved_def split: option.splits)
next
  case False
  assume "addNewCueTracks e cue fn s = Inr s'"
  with False have "s' = foldl (\<lambda>s' cueTrack.
        s'\<lparr>tracksToStore := tracksToStore s' @ [setTrackProps e s' cueTrack (filepath cueTrack)],
           cueFilesScanned :=
             insert (filepath (setTrackProps e s' cueTrack (filepath cueTrack))) (cueFilesScanned s')\<rparr>)
      s (readPlaylistTracks e cue False)"
    by (simp add: addNewCueTracks_def Let_def)
  then show ?thesis
    by (simp only:) (rule foldl_preserved, simp add: preserved_def)
qed

lemma readCue_preserved:
  assumes "readCue e cue om s = Inr s'"
  shows "preserved s s'"
proof (cases "map_of (existingCueTracks s) cue")
  case None
  with assms have "addNewCueTracks e cue (fileName cue) s = Inr s'"
    by (simp add: readCue_def)
  then show ?thesis by (rule addNewCueTracks_preserved)
next
  case (Some tracks)
  with assms obtain front others where tracks: "tracks = front # others"
    by (cases tracks) (auto simp: readCue_def)
  show ?thesis
  proof (cases "modifiedTime front < lastModifiedOf e cue \<or> \<not> om")
    case True
    with assms Some tracks have "s' = updateExistingCueTracks e tracks cue s"
      by (auto simp: readCue_def)
    then show ?thesis by (simp add: updateExistingCueTracks_preserved)
  next
    case False
    with assms Some tracks
    have "s' = s\<lparr>cueFilesScanned := cueFilesScanned s \<union> set (map filepath tracks)\<rparr>"
      by (auto simp: readCue_def)
    then show ?thesis by (simp add: preserved_def)
  qed
qed

lemma updateExistingTrack_preserved:
  assumes "updateExistingTrack e t file s = Inr s'"
  shows "preserved s s'"
proof -
  let ?t1 = "setTrackProps e s t file"
  let ?s1 = "s\<lparr>missingFiles := erase (filename ?t1) (missingFiles s)\<rparr>"
  obtain tr sa where pair:
    "(if trackId ?t1 < 0
      then (let id' = idForTrack e ?t1
            in if id' < 0 then (?t1, emit (LogWarning file) ?s1)
               else (?t1\<lparr>trackId := id'\<rparr>, ?s1))
      else (?t1, ?s1)) = (tr, sa)"
    by (cases "(if trackId ?t1 < 0
      then (let id' = idForTrack e ?t1
            in if id' < 0 then (?t1, emit (LogWarning file) ?s1)
               else (?t1\<lparr>trackId := id'\<rparr>, ?s1))
      else (?t1, ?s1))") blast
  have first: "preserved s sa"
    using pair by (auto simp: Let_def emit_def preserved_def split: if_splits)
  have second: "preserved sa s'"
  proof (cases "hasExtraTag tr ''CUESHEET''")
    case False
    then show ?thesis
      using assms pair by (auto simp: updateExistingTrack_def Let_def preserved_def)
  next
    case True
    then obtain cs where "s' = foldl (\<lambda>s' cueTrack0.
          s'\<lparr>tracksToUpdate := tracksToUpdate s'
                 @ [setTrackProps e s'
                      (withExistingId
                         (case map_of (existingCueTracks sa) (filepath tr) of
                            Some tracks \<Rightarrow> indexByUniquePath tracks | None \<Rightarrow> [])
                         cueTrack0) file],
             missingHashes :=
               erase (hash (setTrackProps e s'
                      (withExistingId
                         (case map_of (existingCueTracks sa) (filepath tr) of
                            Some tracks \<Rightarrow> indexByUniquePath tracks | None \<Rightarrow> [])
                         cueTrack0) file)) (missingHashes s')\<rparr>) sa cs"
      using assms pair by (auto simp: updateExistingTrack_def Let_def split: sum.splits)
    then show ?thesis
      by (simp only:) (rule foldl_preserved, simp add: preserved_def)
  qed
  show ?thesis
    using preserved_trans [OF first second] .
qed

lemma newTrackStep_preserved: "newTrackStep e file s t = Inr s' \<Longrightarrow> preserved s s'"
  by (auto simp: newTrackStep_def Let_def preserved_def split: if_splits sum.splits)

lemma readNewTrack_preserved:
  assumes "readNewTrack e file s = Inr s'"
  shows "preserved s s'"
proof (cases "readTracks e file = []")
  case True
  with assms show ?thesis by (simp add: readNewTrack_def preserved_refl)
next
  case False
  with assms have "foldE (newTrackStep e file) s (readTracks e file) = Inr s'"
    by (simp add: readNewTrack_def)
  then show ?thesis
    by (rule foldE_preserved [rotated]) (rule newTrackStep_preserved)
qed

lemma readFile_preserved:
  assumes "readFile e file om s = Inr s'"
  shows "preserved s s'"
proof -
  let ?s0 = "s\<lparr>polls := Suc (polls s)\<rparr>"
  have p0: "preserved s ?s0"
    by (simp add: preserved_def)
  have archives: "\<And>ts. foldE (\<lambda>s' track. updateExistingTrack e track (filepath track) s') ?s0 ts = Inr s'
      \<Longrightarrow> preserved ?s0 s'"
    by (erule foldE_preserved [rotated]) (rule updateExistingTrack_preserved)
  have "preserved ?s0 s'"
    using assms
    by (auto simp: readFile_def mayRun_def Let_def preserved_refl
        split: if_splits option.splits list.splits
        dest: updateExistingTrack_preserved readNewTrack_preserved archives)
  with p0 show ?thesis
    by (rule preserved_trans)
qed

section \<open>Files that have not changed\<close>





section \<open>Updates of tracks the store does not know\<close>

text \<open>The loop of \<open>updateExistingTrack\<close> over the tracks of an embedded cue sheet.\<close>

lemma cue_update_loop:
  "foldl (\<lambda>s' c.
      s'\<lparr>tracksToUpdate := tracksToUpdate s' @ [setTrackProps e s' (withExistingId m c) file],
         missingHashes :=
           erase (hash (setTrackProps e s' (withExistingId m c) file)) (missingHashes s')\<rparr>) s cs
   = s\<lparr>tracksToUpdate :=
         tracksToUpdate s @ map (\<lambda>c. setTrackProps e s (withExistingId m c) file) cs,
       missingHashes :=
         foldl (\<lambda>mh c. erase (hash (setTrackProps e s (withExistingId m c) file)) mh)
           (missingHashes s) cs\<rparr>"
proof (induction cs arbitrary: s)
  case Nil
  show ?case by simp
next
  case (Cons c cs)
  let ?t = "setTrackProps e s (withExistingId m c) file"
  let ?s1 = "s\<lparr>tracksToUpdate := tracksToUpdate s @ [?t],
               missingHashes := erase (hash ?t) (missingHashes s)\<rparr>"
  have same: "\<And>t f. setTrackProps e ?s1 t f = setTrackProps e s t f"
    by (rule setTrackProps_library) simp
  show ?case
    by (simp add: Cons.IH [of ?s1] same)
qed

text \<open>
  C9, as the code has it. When \<open>updateExistingTrack\<close> processes a track with a negative id
  and \<open>idForTrack\<close> answers a negative id too, a warning is logged and the negative id stays.
  A track without an embedded cue sheet is then appended to the update queue, with that id.
  A track with the CUESHEET tag is not appended itself: the tracks of its embedded cue sheet
  are appended in its place, none when the sheet gives none.
\<close>

theorem updateExistingTrack_unknown_to_store:
  assumes "trackId track < 0" and "idForTrack e (setTrackProps e s track file) < 0"
  shows "trackId (setTrackProps e s track file) = trackId track
    \<and> (\<not> hasExtraTag track ''CUESHEET'' \<longrightarrow>
         updateExistingTrack e track file s
           = Inr (s\<lparr>missingFiles := erase (fileName file) (missingFiles s),
                    events := events s @ [LogWarning file],
                    tracksToUpdate := tracksToUpdate s @ [setTrackProps e s track file],
                    missingHashes :=
                      erase (hash (setTrackProps e s track file)) (missingHashes s)\<rparr>))
    \<and> (hasExtraTag track ''CUESHEET''
          \<and> readEmbeddedPlaylistTracks e (setTrackProps e s track file) = Inr cueTracks \<longrightarrow>
         (\<exists>s'. updateExistingTrack e track file s = Inr s'
            \<and> events s' = events s @ [LogWarning file]
            \<and> tracksToUpdate s'
                = tracksToUpdate s
                  @ map (\<lambda>c. setTrackProps e s
                           (withExistingId
                              (case map_of (existingCueTracks s) file of
                                 Some tracks \<Rightarrow> indexByUniquePath tracks
                               | None \<Rightarrow> []) c) file)
                      cueTracks))"
proof (intro conjI impI)
  let ?t = "setTrackProps e s track file"
  let ?s1 = "emit (LogWarning file) (s\<lparr>missingFiles := erase (filename ?t) (missingFiles s)\<rparr>)"
  have neg: "trackId ?t < 0"
    using assms(1) by (simp add: setTrackProps_fields)
  have same: "\<And>t f. setTrackProps e ?s1 t f = setTrackProps e s t f"
    by (rule setTrackProps_library) (simp add: emit_def)
  show "trackId ?t = trackId track"
    by (simp add: setTrackProps_fields)
  {
    assume plain: "\<not> hasExtraTag track ''CUESHEET''"
    then show "updateExistingTrack e track file s
        = Inr (s\<lparr>missingFiles := erase (fileName file) (missingFiles s),
                 events := events s @ [LogWarning file],
                 tracksToUpdate := tracksToUpdate s @ [?t],
                 missingHashes := erase (hash ?t) (missingHashes s)\<rparr>)"
      using neg assms(2)
      by (simp add: updateExistingTrack_def Let_def hasExtraTag_setTrackProps
          filename_setTrackProps emit_def)
  }
  {
    assume cue: "hasExtraTag track ''CUESHEET'' \<and> readEmbeddedPlaylistTracks e ?t = Inr cueTracks"
    then show "\<exists>s'. updateExistingTrack e track file s = Inr s'
        \<and> events s' = events s @ [LogWarning file]
        \<and> tracksToUpdate s'
            = tracksToUpdate s
              @ map (\<lambda>c. setTrackProps e s
                       (withExistingId
                          (case map_of (existingCueTracks s) file of
                             Some tracks \<Rightarrow> indexByUniquePath tracks
                           | None \<Rightarrow> []) c) file)
                  cueTracks"
      using neg assms(2)
      by (simp add: updateExistingTrack_def Let_def hasExtraTag_setTrackProps
          setTrackProps_fields cue_update_loop same) (simp add: emit_def)
  }
qed

theorem updateExistingTrack_unknown_to_store_witness:
  "trackId newSong < 0
   \<and> idForTrack baseEnv (setTrackProps baseEnv baseScanner newSong ''/music/new.flac'') < 0
   \<and> \<not> hasExtraTag newSong ''CUESHEET''
   \<and> updateExistingTrack baseEnv newSong ''/music/new.flac'' baseScanner
       = Inr (baseScanner\<lparr>events := [LogWarning ''/music/new.flac''],
                tracksToUpdate := [newSong\<lparr>addedTime := 1000\<rparr>]\<rparr>)"
  using updateExistingTrack_unknown_to_store [of newSong baseEnv baseScanner "''/music/new.flac''"]
  by (simp add: newSong_def trackAt_def emptyTrack_def baseEnv_def baseScanner_def
      musicLibrary_def hasExtraTag_def setTrackProps_def readFileProperties_def
      generateHash_def setFilePath_def lastModifiedOf_def erase_def)

text \<open>
  C9 as the claim states it fails for a track with an embedded cue sheet: the warning is
  logged, but the track is not appended to the update queue. Here a cue parser is at hand
  and the embedded sheet gives no tracks, so nothing is appended at all.
\<close>

theorem embedded_cue_track_not_queued:
  "trackId cueSong < 0
   \<and> idForTrack cueEnv (setTrackProps cueEnv baseScanner cueSong ''/music/c.flac'') < 0
   \<and> updateExistingTrack cueEnv cueSong ''/music/c.flac'' baseScanner
       = Inr (baseScanner\<lparr>events := [LogWarning ''/music/c.flac'']\<rparr>)"
  by (simp add: cueSong_def trackAt_def emptyTrack_def cueEnv_def baseEnv_def baseScanner_def
      musicLibrary_def updateExistingTrack_def hasExtraTag_def extraTag_def setTrackProps_def
      readFileProperties_def generateHash_def setFilePath_def lastModifiedOf_def erase_def
      readEmbeddedPlaylistTracks_def emit_def filename_def)

section \<open>Identity matching and rename recovery\<close>

lemma map_of_emplace:
  "map_of (emplace k v m) k'
   = (if k' = k then (case map_of m k of None \<Rightarrow> Some v | Some w \<Rightarrow> Some w) else map_of m k')"
  by (auto simp: emplace_def contains_def map_add_def split: option.splits)

lemma populateStep_missing:
  "missingFiles (populateStep e True s t)
     = (if fileGone e t then emplace (filename t) t (missingFiles s) else missingFiles s)"
  "missingHashes (populateStep e True s t)
     = (if fileGone e t then emplace (hash t) t (missingHashes s) else missingHashes s)"
  by (simp_all add: populateStep_def Let_def flagMissing_def fileGone_def)

lemma populate_missing_index:
  "map_of (missingFiles (populateExistingTracks e tracks True s)) k
     = (case map_of (missingFiles s) k of
          Some t \<Rightarrow> Some t
        | None \<Rightarrow> find (\<lambda>t. fileGone e t \<and> filename t = k) tracks)"
  "map_of (missingHashes (populateExistingTracks e tracks True s)) k
     = (case map_of (missingHashes s) k of
          Some t \<Rightarrow> Some t
        | None \<Rightarrow> find (\<lambda>t. fileGone e t \<and> hash t = k) tracks)"
  unfolding populateExistingTracks_def
  by (induction tracks arbitrary: s)
    (auto simp: populateStep_missing map_of_emplace split: option.splits)

lemma restored_run:
  "scanLibrary (restoredEnv\<lparr>iterationRank := rank\<rparr>) musicLibrary [liveTake, studioTake]
     True baseScanner
   = Inr (baseScanner\<lparr>currentLibrary := musicLibrary\<lparr>libStatus := StatusIdle\<rparr>,
            dbLog :=
              [StoreTracks [restoredSong],
               UpdateTracks
                 (if rank ''live.flac'' \<le> rank ''studio.flac''
                  then [demote liveTake, demote studioTake]
                  else [demote studioTake, demote liveTake])],
            events :=
              [StatusChanged (musicLibrary\<lparr>libStatus := StatusScanning\<rparr>),
               ProgressChanged 0 1, ProgressChanged 1 1,
               ScanUpdate [restoredSong]
                 (if rank ''live.flac'' \<le> rank ''studio.flac''
                  then [demote liveTake, demote studioTake]
                  else [demote studioTake, demote liveTake]),
               StatusChanged (musicLibrary\<lparr>libStatus := StatusIdle\<rparr>), Finished],
            polls := Suc (Suc 0)\<rparr>)"
  by (simp add: scan_defs restoredEnv_def liveTake_def studioTake_def
      restoredSong_def trackAt_def baseEnv_def baseScanner_def musicLibrary_def)

text \<open>
  C3 fails in the code. The indexes of missing tracks hold, under a file name or a hash,
  only the first of the known tracks with that key whose file is gone
  (\<open>populateExistingTracks\<close> fills them with \<open>emplace\<close>); a later track with the same key is
  in neither index under that key. The library knows \<open>liveTake\<close> and \<open>studioTake\<close>, of
  different names and durations and of the same hash, and both files are gone. The new
  file \<open>/music/restored.flac\<close> has the hash and the duration of \<open>studioTake\<close>, so it matches a
  missing track by hash and duration. The lookup by hash finds \<open>liveTake\<close>, whose duration
  differs, and gives up: the file is stored as a new track, no update for \<open>studioTake\<close> with
  the new path is queued, and both known tracks are demoted, in whatever order the index is
  walked.
\<close>

theorem shadowed_track_not_recovered:
  "map_of (missingHashes (populateExistingTracks e tracks True s0)) k
     = (case map_of (missingHashes s0) k of
          Some t \<Rightarrow> Some t
        | None \<Rightarrow> find (\<lambda>t. fileGone e t \<and> hash t = k) tracks)
   \<and> fileGone restoredEnv liveTake \<and> fileGone restoredEnv studioTake
   \<and> isInLibrary studioTake \<and> isEnabled studioTake
   \<and> map (\<lambda>c. (hash c, duration c)) (readTracks restoredEnv ''/music/restored.flac'')
       = [(hash studioTake, duration studioTake)]
   \<and> trackId restoredSong \<noteq> trackId studioTake
   \<and> (\<forall>rank. \<exists>sd ups.
         scanLibrary (restoredEnv\<lparr>iterationRank := rank\<rparr>) musicLibrary [liveTake, studioTake]
           True baseScanner = Inr sd
         \<and> dbLog sd = [StoreTracks [restoredSong], UpdateTracks ups]
         \<and> set ups = {demote liveTake, demote studioTake})"
proof (intro conjI allI)
  show "map_of (missingHashes (populateExistingTracks e tracks True s0)) k
     = (case map_of (missingHashes s0) k of
          Some t \<Rightarrow> Some t
        | None \<Rightarrow> find (\<lambda>t. fileGone e t \<and> hash t = k) tracks)"
    by (rule populate_missing_index)
  show "fileGone restoredEnv liveTake" "fileGone restoredEnv studioTake"
    by (simp_all add: fileGone_def isInArchive_def restoredEnv_def liveTake_def studioTake_def
        trackAt_def emptyTrack_def)
  show "isInLibrary studioTake" "isEnabled studioTake"
    by (simp_all add: isInLibrary_def studioTake_def trackAt_def emptyTrack_def)
  show "map (\<lambda>c. (hash c, duration c)) (readTracks restoredEnv ''/music/restored.flac'')
       = [(hash studioTake, duration studioTake)]"
    by (simp add: scan_defs restoredEnv_def baseEnv_def studioTake_def trackAt_def)
  show "trackId restoredSong \<noteq> trackId studioTake"
    by (simp add: restoredSong_def studioTake_def trackAt_def emptyTrack_def)
next
  fix rank :: "string \<Rightarrow> nat"
  let ?ups = "if rank ''live.flac'' \<le> rank ''studio.flac''
              then [demote liveTake, demote studioTake]
              else [demote studioTake, demote liveTake]"
  have run: "\<exists>sd. scanLibrary (restoredEnv\<lparr>iterationRank := rank\<rparr>) musicLibrary
        [liveTake, studioTake] True baseScanner = Inr sd
      \<and> dbLog sd = [StoreTracks [restoredSong], UpdateTracks ?ups]"
    unfolding restored_run by simp
  have "set ?ups = {demote liveTake, demote studioTake}"
    by auto
  with run show "\<exists>sd ups.
         scanLibrary (restoredEnv\<lparr>iterationRank := rank\<rparr>) musicLibrary [liveTake, studioTake]
           True baseScanner = Inr sd
         \<and> dbLog sd = [StoreTracks [restoredSong], UpdateTracks ups]
         \<and> set ups = {demote liveTake, demote studioTake}"
    by blast
qed

section \<open>Cue sheets whose tracks are missing\<close>

lemma contains_dom: "contains m k = (k \<in> dom (map_of m))"
  by (auto simp: contains_def)

lemma keys_dom: "fst ` set m = dom (map_of m)"
  by (simp add: dom_map_of_conv_image_fst)

lemma dom_pushBackAt: "dom (map_of (pushBackAt k v m)) = insert k (dom (map_of m))"
  by (auto simp: pushBackAt_def update_conv' split: option.splits)

lemma cueIndexesAgree_iff:
  "cueIndexesAgree s = (dom (map_of (missingCueTracks s)) \<subseteq> dom (map_of (existingCueTracks s)))"
  by (auto simp: cueIndexesAgree_def list_all_iff contains_dom keys_dom [symmetric])

lemma flagMissing_cue:
  "missingCueTracks (flagMissing t s) = missingCueTracks s"
  "existingCueTracks (flagMissing t s) = existingCueTracks s"
  by (simp_all add: flagMissing_def)

lemma populateStep_cue_keys:
  "dom (map_of (missingCueTracks (populateStep e True s t)))
     = dom (map_of (missingCueTracks s))
       \<union> (if hasCue t \<and> \<not> fsExists e (if cuePath t = ''Embedded'' then filepath t else cuePath t)
          then {if cuePath t = ''Embedded'' then filepath t else cuePath t} else {})"
  "dom (map_of (existingCueTracks (populateStep e True s t)))
     = dom (map_of (existingCueTracks s))
       \<union> (if hasCue t then {if cuePath t = ''Embedded'' then filepath t else cuePath t} else {})"
  by (simp_all add: populateStep_def Let_def flagMissing_cue dom_pushBackAt)

lemma populateStep_agree:
  "cueIndexesAgree s \<Longrightarrow> cueIndexesAgree (populateStep e True s t)"
  unfolding cueIndexesAgree_iff populateStep_cue_keys by auto

lemma populate_agree:
  "cueIndexesAgree s \<Longrightarrow> cueIndexesAgree (populateExistingTracks e tracks True s)"
  unfolding populateExistingTracks_def
  by (induction tracks arbitrary: s) (simp_all add: populateStep_agree)

lemma populate_cue_keys:
  "dom (map_of (missingCueTracks (populateExistingTracks e tracks True s)))
     \<subseteq> dom (map_of (missingCueTracks s))
       \<union> {k. \<exists>t\<in>set tracks. hasCue t
              \<and> k = (if cuePath t = ''Embedded'' then filepath t else cuePath t)
              \<and> \<not> fsExists e k}"
  unfolding populateExistingTracks_def
proof (induction tracks arbitrary: s)
  case Nil
  show ?case by simp
next
  case (Cons t tracks)
  show ?case
    using Cons.IH [of "populateStep e True s t"]
    unfolding foldl_Cons populateStep_cue_keys(1) [of e s t]
    by (auto split: if_splits)
qed

lemma preserved_agree: "preserved s s' \<Longrightarrow> cueIndexesAgree s \<Longrightarrow> cueIndexesAgree s'"
  by (simp add: preserved_def cueIndexesAgree_def)

text \<open>The loop of \<open>addNewCueTracks\<close> over the tracks read from a cue sheet.\<close>

lemma cue_store_loop:
  "foldl (\<lambda>s' c.
      s'\<lparr>tracksToStore := tracksToStore s' @ [setTrackProps e s' c (filepath c)],
         cueFilesScanned := insert (filepath c) (cueFilesScanned s')\<rparr>) s cs
   = s\<lparr>tracksToStore := tracksToStore s @ map (\<lambda>c. setTrackProps e s c (filepath c)) cs,
       cueFilesScanned := cueFilesScanned s \<union> set (map filepath cs)\<rparr>"
proof (induction cs arbitrary: s)
  case Nil
  show ?case by simp
next
  case (Cons c cs)
  let ?s1 = "s\<lparr>tracksToStore := tracksToStore s @ [setTrackProps e s c (filepath c)],
               cueFilesScanned := insert (filepath c) (cueFilesScanned s)\<rparr>"
  have same: "\<And>t f. setTrackProps e ?s1 t f = setTrackProps e s t f"
    by (rule setTrackProps_library) simp
  show ?case
    by (simp add: Cons.IH [of ?s1] same)
qed

lemma addNewCueTracks_fault:
  "contains (missingCueTracks s) fn \<Longrightarrow> \<not> contains (missingCueTracks s) cue \<Longrightarrow>
   addNewCueTracks e cue fn s = Inl OutOfRange"
  by (simp add: addNewCueTracks_def contains_def)

lemma addNewCueTracks_new:
  "\<not> contains (missingCueTracks s) fn \<Longrightarrow>
   addNewCueTracks e cue fn s
   = Inr (s\<lparr>tracksToStore :=
              tracksToStore s
              @ map (\<lambda>c. setTrackProps e s c (filepath c)) (readPlaylistTracks e cue False),
            cueFilesScanned :=
              cueFilesScanned s \<union> set (map filepath (readPlaylistTracks e cue False))\<rparr>)"
  by (simp add: addNewCueTracks_def Let_def setTrackProps_fields cue_store_loop)

text \<open>
  C10. \<open>addNewCueTracks\<close> asks the index of missing cue tracks for the cue file's bare name
  and then reads it at the cue's full path: when the bare name is a key and the full path is
  not, the read throws. \<open>populateExistingTracks\<close> keys the index by the cue path of the
  tracks (their own path for an embedded sheet), and only under keys it also gives to the
  index of known cue tracks; reading files and cue sheets keeps that. \<open>readCue\<close> calls
  \<open>addNewCueTracks\<close> only for a cue path the index of known cue tracks does not hold, so the
  full path is never a key of the missing index there: the branch that links missing cue
  tracks again never completes, whatever the bare name is. The call throws when the bare
  name is a key, and otherwise reads the cue sheet again and queues its tracks as inserts,
  with no update queued.
\<close>

theorem missing_cue_tracks_not_relinked:
  "(contains (missingCueTracks s) fn \<and> \<not> contains (missingCueTracks s) cue
      \<longrightarrow> addNewCueTracks e cue fn s = Inl OutOfRange)
   \<and> fst ` set (missingCueTracks (populateExistingTracks e tracks True s0))
       \<subseteq> fst ` set (missingCueTracks s0)
         \<union> {k. \<exists>t\<in>set tracks. hasCue t
                \<and> k = (if cuePath t = ''Embedded'' then filepath t else cuePath t)
                \<and> \<not> fsExists e k}
   \<and> (cueIndexesAgree s0 \<longrightarrow> cueIndexesAgree (populateExistingTracks e tracks True s0))
   \<and> (cueIndexesAgree s \<and> (readCue e cue om s = Inr s' \<or> readFile e cue om s = Inr s')
        \<longrightarrow> cueIndexesAgree s')
   \<and> (cueIndexesAgree s \<and> \<not> contains (existingCueTracks s) cue
        \<longrightarrow> \<not> contains (missingCueTracks s) cue
            \<and> readCue e cue om s
                = (if contains (missingCueTracks s) (fileName cue) then Inl OutOfRange
                   else Inr (s\<lparr>tracksToStore :=
                                tracksToStore s
                                @ map (\<lambda>c. setTrackProps e s c (filepath c))
                                    (readPlaylistTracks e cue False),
                              cueFilesScanned :=
                                cueFilesScanned s
                                \<union> set (map filepath (readPlaylistTracks e cue False))\<rparr>)))"
proof (intro conjI impI)
  show "fst ` set (missingCueTracks (populateExistingTracks e tracks True s0))
       \<subseteq> fst ` set (missingCueTracks s0)
         \<union> {k. \<exists>t\<in>set tracks. hasCue t
                \<and> k = (if cuePath t = ''Embedded'' then filepath t else cuePath t)
                \<and> \<not> fsExists e k}"
    unfolding keys_dom by (rule populate_cue_keys)
next
  assume "cueIndexesAgree s \<and> (readCue e cue om s = Inr s' \<or> readFile e cue om s = Inr s')"
  then show "cueIndexesAgree s'"
    using preserved_agree readCue_preserved readFile_preserved by blast
next
  assume inv: "cueIndexesAgree s \<and> \<not> contains (existingCueTracks s) cue"
  then show notKey: "\<not> contains (missingCueTracks s) cue"
    by (auto simp: cueIndexesAgree_iff contains_dom)
  have unknown: "map_of (existingCueTracks s) cue = None"
    using inv by (simp add: contains_def)
  show "readCue e cue om s
      = (if contains (missingCueTracks s) (fileName cue) then Inl OutOfRange
         else Inr (s\<lparr>tracksToStore :=
                      tracksToStore s
                      @ map (\<lambda>c. setTrackProps e s c (filepath c))
                          (readPlaylistTracks e cue False),
                    cueFilesScanned :=
                      cueFilesScanned s
                      \<union> set (map filepath (readPlaylistTracks e cue False))\<rparr>))"
    using notKey unknown
    by (simp add: readCue_def addNewCueTracks_fault addNewCueTracks_new)
qed (simp_all add: addNewCueTracks_fault populate_agree)

theorem missing_cue_tracks_not_relinked_witness:
  "missingCueTracks (populateExistingTracks cueEnv [cueTrack1, cueTrack2] True baseScanner)
     = [(''/music/album.cue'', [cueTrack1]), (''album.cue'', [cueTrack2])]
   \<and> readCue cueEnv ''/music/new/album.cue'' True
        (populateExistingTracks cueEnv [cueTrack1, cueTrack2] True baseScanner)
      = Inl OutOfRange
   \<and> (\<exists>s'. readCue cueEnv ''/music/new/album.cue'' True
              (populateExistingTracks cueEnv [cueTrack1] True baseScanner) = Inr s'
         \<and> tracksToUpdate s' = []
         \<and> map filepath (tracksToStore s') = [''/music/album.flac''])"
proof -
  let ?s1 = "populateExistingTracks cueEnv [cueTrack1] True baseScanner"
  let ?s2 = "populateExistingTracks cueEnv [cueTrack1, cueTrack2] True baseScanner"
  note defs = populateExistingTracks_def populateStep_def flagMissing_def pushBackAt_def
    emplace_def contains_def hasCue_def isInArchive_def filename_def fileName_def
    cueTrack1_def cueTrack2_def trackAt_def emptyTrack_def cueEnv_def baseEnv_def
    baseScanner_def Let_def
  have agree0: "cueIndexesAgree baseScanner"
    by (simp add: cueIndexesAgree_def baseScanner_def)
  have idx1: "missingCueTracks ?s1 = [(''/music/album.cue'', [cueTrack1])]
      \<and> existingCueTracks ?s1 = [(''/music/album.cue'', [cueTrack1])]
      \<and> tracksToUpdate ?s1 = [] \<and> tracksToStore ?s1 = []"
    by (simp add: defs)
  have idx2: "missingCueTracks ?s2
        = [(''/music/album.cue'', [cueTrack1]), (''album.cue'', [cueTrack2])]
      \<and> existingCueTracks ?s2
        = [(''/music/album.cue'', [cueTrack1]), (''album.cue'', [cueTrack2])]"
    by (simp add: defs)
  have agree1: "cueIndexesAgree ?s1" and agree2: "cueIndexesAgree ?s2"
    using agree0
      missing_cue_tracks_not_relinked [of _ _ _ cueEnv "[cueTrack1]" baseScanner]
      missing_cue_tracks_not_relinked [of _ _ _ cueEnv "[cueTrack1, cueTrack2]" baseScanner]
    by blast+
  have new1: "\<not> contains (existingCueTracks ?s1) ''/music/new/album.cue''"
    and new2: "\<not> contains (existingCueTracks ?s2) ''/music/new/album.cue''"
    by (simp_all add: idx1 idx2 contains_def)
  have bare1: "\<not> contains (missingCueTracks ?s1) (fileName ''/music/new/album.cue'')"
    and bare2: "contains (missingCueTracks ?s2) (fileName ''/music/new/album.cue'')"
    by (simp_all add: idx1 idx2 contains_def fileName_def)
  have read: "readPlaylistTracks cueEnv ''/music/new/album.cue'' False
      = [newTrack ''/music/album.flac'' 0]"
    by (simp add: readPlaylistTracks_def cueEnv_def baseEnv_def suffix_def fileName_def)
  have fault: "readCue cueEnv ''/music/new/album.cue'' True ?s2 = Inl OutOfRange"
    using missing_cue_tracks_not_relinked
        [of ?s2 _ "''/music/new/album.cue''" cueEnv _ _ True, THEN conjunct2, THEN conjunct2,
          THEN conjunct2, THEN conjunct2]
      agree2 new2 bare2 by simp
  have stored: "readCue cueEnv ''/music/new/album.cue'' True ?s1
      = Inr (?s1\<lparr>tracksToStore :=
                tracksToStore ?s1
                @ map (\<lambda>c. setTrackProps cueEnv ?s1 c (filepath c))
                    (readPlaylistTracks cueEnv ''/music/new/album.cue'' False),
              cueFilesScanned :=
                cueFilesScanned ?s1
                \<union> set (map filepath (readPlaylistTracks cueEnv ''/music/new/album.cue'' False))\<rparr>)"
    using missing_cue_tracks_not_relinked
        [of ?s1 _ "''/music/new/album.cue''" cueEnv _ _ True, THEN conjunct2, THEN conjunct2,
          THEN conjunct2, THEN conjunct2]
      agree1 new1 bare1 by simp
  have "\<exists>s'. readCue cueEnv ''/music/new/album.cue'' True ?s1 = Inr s'
      \<and> tracksToUpdate s' = [] \<and> map filepath (tracksToStore s') = [''/music/album.flac'']"
    unfolding stored read
    by (simp add: idx1 setTrackProps_fields newTrack_def)
  with idx2 fault show ?thesis by blast
qed

section \<open>Cancellation\<close>

lemma checkBatchFinished_log:
  "\<exists>ops. dbLog (checkBatchFinished s) = dbLog s @ ops \<and> list_all fullBatch ops"
  by (simp add: checkBatchFinished_def Let_def storeTracks_def updateTracks_def emit_def
      fullBatch_def)

lemma fileScanned_log: "dbLog (fileScanned file s) = dbLog s"
  by (simp add: fileScanned_def reportProgress_def emit_def)

lemma scanLoop_log:
  "scanLoop e om files s = Inr (completed, s')
   \<Longrightarrow> \<exists>ops. dbLog s' = dbLog s @ ops \<and> list_all fullBatch ops"
proof (induction files arbitrary: s)
  case Nil
  then show ?case by simp
next
  case (Cons f fs)
  let ?s0 = "s\<lparr>polls := Suc (polls s)\<rparr>"
  show ?case
  proof (cases "state e s = Running")
    case False
    with Cons.prems have "s' = ?s0"
      by (simp add: mayRun_def)
    then show ?thesis by simp
  next
    case True
    let ?read = "if suffix f = ''cue'' then readCue e (fsAbsolute e f) om ?s0
                 else readFile e (fsAbsolute e f) om ?s0"
    from True Cons.prems obtain s1 where s1: "?read = Inr s1"
      and rest: "scanLoop e om fs (checkBatchFinished (fileScanned (fsAbsolute e f) s1))
                 = Inr (completed, s')"
      by (auto simp: mayRun_def Let_def split: sum.splits)
    have "preserved ?s0 s1"
      using s1 readCue_preserved readFile_preserved by (auto split: if_splits)
    then have log1: "dbLog s1 = dbLog s"
      by (simp add: preserved_def)
    obtain ops1 where ops1:
      "dbLog (checkBatchFinished (fileScanned (fsAbsolute e f) s1)) = dbLog s @ ops1"
      "list_all fullBatch ops1"
      using checkBatchFinished_log [of "fileScanned (fsAbsolute e f) s1"]
      by (auto simp: fileScanned_log log1)
    obtain ops2 where ops2:
      "dbLog s' = dbLog (checkBatchFinished (fileScanned (fsAbsolute e f) s1)) @ ops2"
      "list_all fullBatch ops2"
      using Cons.IH [OF rest] by blast
    have "dbLog s' = dbLog s @ (ops1 @ ops2) \<and> list_all fullBatch (ops1 @ ops2)"
      using ops1 ops2 by simp
    then show ?thesis by blast
  qed
qed

lemma populate_log: "dbLog (populateExistingTracks e tracks b s) = dbLog s"
  unfolding populateExistingTracks_def
  by (induction tracks arbitrary: s) (simp_all add: populateStep_def Let_def flagMissing_def)

lemma cancelled_run_log:
  assumes "getAndSaveAllTracks e path tracks om s0 = Inr (False, s')"
  shows "\<exists>ops. dbLog s' = dbLog s0 @ ops \<and> list_all fullBatch ops"
proof -
  let ?s2 = "reportProgress ((populateExistingTracks e tracks True s0)
               \<lparr>totalFiles := length (libraryFiles e path)\<rparr>)"
  have start: "dbLog ?s2 = dbLog s0"
    by (simp add: reportProgress_def emit_def populate_log)
  from assms have "scanLoop e om (libraryFiles e path) ?s2 = Inr (False, s')"
    by (auto simp: getAndSaveAllTracks_def Let_def split: sum.splits if_splits)
  from scanLoop_log [OF this] start show ?thesis by simp
qed

lemma scanLoop_posted:
  "scanLoop e om files s = Inr (completed, s') \<Longrightarrow> posted s' = posted s"
proof (induction files arbitrary: s)
  case Nil
  then show ?case by simp
next
  case (Cons f fs)
  let ?s0 = "s\<lparr>polls := Suc (polls s)\<rparr>"
  show ?case
  proof (cases "state e s = Running")
    case False
    with Cons.prems have "s' = ?s0"
      by (simp add: mayRun_def)
    then show ?thesis by simp
  next
    case True
    let ?read = "if suffix f = ''cue'' then readCue e (fsAbsolute e f) om ?s0
                 else readFile e (fsAbsolute e f) om ?s0"
    from True Cons.prems obtain s1 where s1: "?read = Inr s1"
      and rest: "scanLoop e om fs (checkBatchFinished (fileScanned (fsAbsolute e f) s1))
                 = Inr (completed, s')"
      by (auto simp: mayRun_def Let_def split: sum.splits)
    have "preserved ?s0 s1"
      using s1 readCue_preserved readFile_preserved by (auto split: if_splits)
    then have "posted s1 = posted s"
      by (simp add: preserved_def)
    moreover have "posted (checkBatchFinished (fileScanned (fsAbsolute e f) s1)) = posted s1"
      by (simp add: checkBatchFinished_def Let_def storeTracks_def updateTracks_def emit_def
          fileScanned_def reportProgress_def)
    ultimately show ?thesis
      using Cons.IH [OF rest] by simp
  qed
qed

lemma runPosted_events:
  "events (runPosted n s)
   = events s @ replicate n (ProgressChanged (toInt (totalFiles s)) (toInt (totalFiles s)))"
proof (induction n arbitrary: s)
  case 0
  then show ?case by simp
next
  case (Suc n)
  have "events (runPosted (Suc n) s)
      = (events s @ [ProgressChanged (toInt (totalFiles s)) (toInt (totalFiles s))])
        @ replicate n (ProgressChanged (toInt (totalFiles s)) (toInt (totalFiles s)))"
    by (simp add: Suc.IH emit_def)
  then show ?case
    by simp
qed

lemma deliverPosted_events:
  "events (deliverPosted s)
   = events s @ replicate (posted s) (ProgressChanged (toInt (totalFiles s)) (toInt (totalFiles s)))"
  by (simp add: deliverPosted_def runPosted_events)

lemma stopped_loop:
  assumes "workerState s = Running" and "requested e (polls s) = None"
  shows "scanLoop e om (file # files) (stopThread e s)
         = Inr (False, s\<lparr>workerState := Idle, posted := Suc (posted s), polls := Suc (polls s)\<rparr>)"
  using assms by (simp add: stopThread_def setState_def state_def mayRun_def)

text \<open>
  C2, as the code has it. When the worker may no longer run at the look in front of a
  file, the loop returns false at once and touches neither queue nor store. A run that
  returns false has made on the store only the calls of \<open>checkBatchFinished\<close>, each with a
  queue of at least 250 tracks: what is queued at that moment is not written, and
  \<open>cleanupScan\<close>, which \<open>scanLibrary\<close> calls next, clears both queues without a call on the
  store. \<open>stopThread\<close> sends no signal itself: when the worker is running it posts one call
  and sets the state. The loop over the files keeps the posted calls, and a loop that meets
  the stop in front of a file returns false with the call still posted. The call runs after
  the scan function has returned, and reports the total number of files as it is then in
  both places of the progress signal: after the cleanup of a cancelled scan that is zero of
  zero, whatever the number of files scanned.
\<close>

theorem cancelled_scan_flushes_nothing:
  "(state e s \<noteq> Running
      \<longrightarrow> scanLoop e om (file # files) s = Inr (False, s\<lparr>polls := Suc (polls s)\<rparr>))
   \<and> (getAndSaveAllTracks e path tracks om sa = Inr (False, sb)
      \<longrightarrow> (\<exists>ops. dbLog sb = dbLog sa @ ops \<and> list_all fullBatch ops))
   \<and> dbLog (cleanupScan s) = dbLog s
   \<and> tracksToStore (cleanupScan s) = [] \<and> tracksToUpdate (cleanupScan s) = []
   \<and> events (stopThread e s) = events s
   \<and> (scanLoop e om files s = Inr (completed, sc) \<longrightarrow> posted sc = posted s)
   \<and> (workerState s = Running \<and> requested e (polls s) = None
      \<longrightarrow> (\<exists>sd. scanLoop e om (file # files) (stopThread e s) = Inr (False, sd)
             \<and> posted sd = Suc (posted s)
             \<and> tracksToStore sd = tracksToStore s \<and> tracksToUpdate sd = tracksToUpdate s
             \<and> dbLog sd = dbLog s
             \<and> events (deliverPosted (cleanupScan sd))
               = events s @ replicate (Suc (posted s)) (ProgressChanged 0 0)))
   \<and> events (deliverPosted s)
     = events s
       @ replicate (posted s) (ProgressChanged (toInt (totalFiles s)) (toInt (totalFiles s)))"
proof (intro conjI impI)
  assume "getAndSaveAllTracks e path tracks om sa = Inr (False, sb)"
  then show "\<exists>ops. dbLog sb = dbLog sa @ ops \<and> list_all fullBatch ops"
    by (rule cancelled_run_log)
next
  assume "scanLoop e om files s = Inr (completed, sc)"
  then show "posted sc = posted s"
    by (rule scanLoop_posted)
next
  assume a: "workerState s = Running \<and> requested e (polls s) = None"
  let ?sd = "s\<lparr>workerState := Idle, posted := Suc (posted s), polls := Suc (polls s)\<rparr>"
  have loop: "scanLoop e om (file # files) (stopThread e s) = Inr (False, ?sd)"
  proof (rule stopped_loop)
    show "workerState s = Running" using a by simp
    show "requested e (polls s) = None" using a by simp
  qed
  have "events (deliverPosted (cleanupScan ?sd))
      = events s @ replicate (Suc (posted s)) (ProgressChanged 0 0)"
    by (simp add: deliverPosted_events cleanupScan_def toInt_def)
  with loop show "\<exists>sd. scanLoop e om (file # files) (stopThread e s) = Inr (False, sd)
      \<and> posted sd = Suc (posted s)
      \<and> tracksToStore sd = tracksToStore s \<and> tracksToUpdate sd = tracksToUpdate s
      \<and> dbLog sd = dbLog s
      \<and> events (deliverPosted (cleanupScan sd))
        = events s @ replicate (Suc (posted s)) (ProgressChanged 0 0)"
    by simp
next
  show "events (deliverPosted s)
     = events s
       @ replicate (posted s) (ProgressChanged (toInt (totalFiles s)) (toInt (totalFiles s)))"
    by (rule deliverPosted_events)
qed (simp_all add: mayRun_def cleanupScan_def stopThread_def setState_def)

lemma stop_run:
  "getAndSaveAllTracks stopEnv ''/music'' [] True (baseScanner\<lparr>workerState := Running\<rparr>)
     = Inr (False, baseScanner\<lparr>workerState := Running, totalFiles := 2,
              events := [ProgressChanged 0 2, ProgressChanged 1 2], polls := 3,
              tracksToStore := [songA], filesScanned := {''/music/a.flac''}\<rparr>)"
  by (simp add: scan_defs stopEnv_def twoSongsEnv_def baseEnv_def baseScanner_def songA_def
      musicLibrary_def numeral_2_eq_2 numeral_3_eq_3)

lemma first_file:
  "scanLoop twoSongsEnv True [''/music/a.flac''] startOfScan = Inr (True, afterFirstFile)"
  by (simp add: scan_defs startOfScan_def afterFirstFile_def twoSongsEnv_def baseEnv_def
      baseScanner_def songA_def musicLibrary_def numeral_2_eq_2)

text \<open>
  C2 as the claim states it fails. With two new songs and a stop request that arrives
  while the first is read, the run returns false with the first song still queued and no
  call made on the store; \<open>scanLibrary\<close> ends with both queues cleared and still no call on
  the store. Step by step: the loop scans the first file and queues its song, another
  thread calls \<open>stopThread\<close>, which posts its call, and the loop returns false in front of
  the second file. One file of two was scanned; the call posted by \<open>stopThread\<close>, delivered
  after the cleanup, reports zero of zero.
\<close>

theorem cancelled_scan_loses_queued_track:
  "getAndSaveAllTracks stopEnv ''/music'' [] True (baseScanner\<lparr>workerState := Running\<rparr>)
     = Inr (False, baseScanner\<lparr>workerState := Running, totalFiles := 2,
              events := [ProgressChanged 0 2, ProgressChanged 1 2], polls := 3,
              tracksToStore := [songA], filesScanned := {''/music/a.flac''}\<rparr>)
   \<and> scanLibrary stopEnv musicLibrary [] True baseScanner
     = Inr (baseScanner\<lparr>workerState := Idle,
              currentLibrary := musicLibrary\<lparr>libStatus := StatusIdle\<rparr>,
              events := [StatusChanged (musicLibrary\<lparr>libStatus := StatusScanning\<rparr>),
                         ProgressChanged 0 2, ProgressChanged 1 2,
                         StatusChanged (musicLibrary\<lparr>libStatus := StatusIdle\<rparr>), Finished],
              polls := 3\<rparr>)
   \<and> scanLoop twoSongsEnv True [''/music/a.flac''] startOfScan = Inr (True, afterFirstFile)
   \<and> tracksToStore afterFirstFile = [songA] \<and> dbLog afterFirstFile = []
   \<and> filesScanned afterFirstFile = {''/music/a.flac''} \<and> totalFiles afterFirstFile = 2
   \<and> stopThread twoSongsEnv afterFirstFile = afterFirstFile\<lparr>workerState := Idle, posted := 1\<rparr>
   \<and> scanLoop twoSongsEnv True [''/music/b.flac''] (stopThread twoSongsEnv afterFirstFile)
     = Inr (False, afterFirstFile\<lparr>workerState := Idle, posted := 1, polls := 3\<rparr>)
   \<and> dbLog (cleanupScan (afterFirstFile\<lparr>workerState := Idle, posted := 1, polls := 3\<rparr>)) = []
   \<and> tracksToStore (cleanupScan (afterFirstFile\<lparr>workerState := Idle, posted := 1, polls := 3\<rparr>))
     = []
   \<and> events (deliverPosted
        (cleanupScan (afterFirstFile\<lparr>workerState := Idle, posted := 1, polls := 3\<rparr>)))
     = [ProgressChanged 0 2, ProgressChanged 1 2, ProgressChanged 0 0]"
proof (intro conjI)
  show "scanLibrary stopEnv musicLibrary [] True baseScanner
     = Inr (baseScanner\<lparr>workerState := Idle,
              currentLibrary := musicLibrary\<lparr>libStatus := StatusIdle\<rparr>,
              events := [StatusChanged (musicLibrary\<lparr>libStatus := StatusScanning\<rparr>),
                         ProgressChanged 0 2, ProgressChanged 1 2,
                         StatusChanged (musicLibrary\<lparr>libStatus := StatusIdle\<rparr>), Finished],
              polls := 3\<rparr>)"
    by (simp add: scan_defs stopEnv_def twoSongsEnv_def baseEnv_def baseScanner_def songA_def
        musicLibrary_def numeral_2_eq_2 numeral_3_eq_3)
  show "scanLoop twoSongsEnv True [''/music/a.flac''] startOfScan = Inr (True, afterFirstFile)"
    by (rule first_file)
  show "stopThread twoSongsEnv afterFirstFile = afterFirstFile\<lparr>workerState := Idle, posted := 1\<rparr>"
    by (simp add: stopThread_def setState_def state_def afterFirstFile_def startOfScan_def
        twoSongsEnv_def baseEnv_def baseScanner_def)
  show "scanLoop twoSongsEnv True [''/music/b.flac''] (stopThread twoSongsEnv afterFirstFile)
     = Inr (False, afterFirstFile\<lparr>workerState := Idle, posted := 1, polls := 3\<rparr>)"
    by (simp add: stopThread_def setState_def state_def mayRun_def afterFirstFile_def
        startOfScan_def twoSongsEnv_def baseEnv_def baseScanner_def numeral_3_eq_3)
  show "events (deliverPosted
        (cleanupScan (afterFirstFile\<lparr>workerState := Idle, posted := 1, polls := 3\<rparr>)))
     = [ProgressChanged 0 2, ProgressChanged 1 2, ProgressChanged 0 0]"
    by (simp add: deliverPosted_def cleanupScan_def emit_def toInt_def afterFirstFile_def
        startOfScan_def baseScanner_def)
qed (simp_all add: stop_run, simp_all add: cleanupScan_def afterFirstFile_def startOfScan_def
    baseScanner_def)

theorem cancelled_scan_flushes_nothing_witness:
  "state stopEnv (baseScanner\<lparr>workerState := Running, polls := 2\<rparr>) \<noteq> Running
   \<and> scanLoop stopEnv True [''/music/b.flac''] (baseScanner\<lparr>workerState := Running, polls := 2\<rparr>)
       = Inr (False, baseScanner\<lparr>workerState := Running, polls := 3\<rparr>)
   \<and> (\<exists>s'. getAndSaveAllTracks stopEnv ''/music'' [] True (baseScanner\<lparr>workerState := Running\<rparr>)
            = Inr (False, s')
         \<and> tracksToStore s' = [songA]
         \<and> (\<exists>ops. dbLog s' = dbLog (baseScanner\<lparr>workerState := Running\<rparr>) @ ops
                \<and> list_all fullBatch ops))
   \<and> scanLoop twoSongsEnv True [''/music/a.flac''] startOfScan = Inr (True, afterFirstFile)
   \<and> posted afterFirstFile = posted startOfScan
   \<and> workerState afterFirstFile = Running
   \<and> requested twoSongsEnv (polls afterFirstFile) = None
   \<and> (\<exists>sd. scanLoop twoSongsEnv True [''/music/b.flac''] (stopThread twoSongsEnv afterFirstFile)
            = Inr (False, sd)
         \<and> posted sd = 1 \<and> tracksToStore sd = [songA] \<and> dbLog sd = []
         \<and> events (deliverPosted (cleanupScan sd))
           = [ProgressChanged 0 2, ProgressChanged 1 2, ProgressChanged 0 0])"
proof -
  let ?mid = "baseScanner\<lparr>workerState := Running, totalFiles := 2,
      events := [ProgressChanged 0 2, ProgressChanged 1 2], polls := 3,
      tracksToStore := [songA], filesScanned := {''/music/a.flac''}\<rparr>"
  have stopped: "state stopEnv (baseScanner\<lparr>workerState := Running, polls := 2\<rparr>) \<noteq> Running"
    by (simp add: state_def stopEnv_def baseScanner_def)
  have run: "getAndSaveAllTracks stopEnv ''/music'' [] True (baseScanner\<lparr>workerState := Running\<rparr>)
      = Inr (False, ?mid)"
    by (rule stop_run)
  have loop: "scanLoop stopEnv True [''/music/b.flac''] (baseScanner\<lparr>workerState := Running, polls := 2\<rparr>)
      = Inr (False, baseScanner\<lparr>workerState := Running, polls := 3\<rparr>)"
    using cancelled_scan_flushes_nothing
        [of stopEnv "baseScanner\<lparr>workerState := Running, polls := 2\<rparr>" True "''/music/b.flac''" "[]",
          THEN conjunct1] stopped
    by (simp add: baseScanner_def numeral_3_eq_3 numeral_2_eq_2)
  have log: "\<exists>ops. dbLog ?mid = dbLog (baseScanner\<lparr>workerState := Running\<rparr>) @ ops
      \<and> list_all fullBatch ops"
    using cancelled_scan_flushes_nothing
        [where e = stopEnv and path = "''/music''" and tracks = "[]" and om = True
          and sa = "baseScanner\<lparr>workerState := Running\<rparr>" and sb = ?mid,
          THEN conjunct2, THEN conjunct1] run
    by blast
  have queued: "tracksToStore ?mid = [songA]"
    by simp
  have first: "scanLoop twoSongsEnv True [''/music/a.flac''] startOfScan
      = Inr (True, afterFirstFile)"
    by (rule first_file)
  have kept: "posted afterFirstFile = posted startOfScan"
    using cancelled_scan_flushes_nothing
        [where e = twoSongsEnv and om = True and files = "[''/music/a.flac'']"
          and s = startOfScan and completed = True and sc = afterFirstFile,
          THEN conjunct2, THEN conjunct2, THEN conjunct2, THEN conjunct2, THEN conjunct2,
          THEN conjunct2, THEN conjunct1] first
    by blast
  have running: "workerState afterFirstFile = Running
      \<and> requested twoSongsEnv (polls afterFirstFile) = None"
    by (simp add: afterFirstFile_def startOfScan_def baseScanner_def twoSongsEnv_def baseEnv_def)
  have fields: "posted afterFirstFile = 0 \<and> tracksToStore afterFirstFile = [songA]
      \<and> tracksToUpdate afterFirstFile = [] \<and> dbLog afterFirstFile = []
      \<and> events afterFirstFile = [ProgressChanged 0 2, ProgressChanged 1 2]"
    by (simp add: afterFirstFile_def startOfScan_def baseScanner_def)
  note stopping = cancelled_scan_flushes_nothing
      [of twoSongsEnv afterFirstFile True "''/music/b.flac''" "[]",
        THEN conjunct2, THEN conjunct2, THEN conjunct2, THEN conjunct2, THEN conjunct2,
        THEN conjunct2, THEN conjunct2, THEN conjunct1]
  from stopping running obtain sd where
    sd: "scanLoop twoSongsEnv True [''/music/b.flac''] (stopThread twoSongsEnv afterFirstFile)
           = Inr (False, sd)"
      "posted sd = Suc (posted afterFirstFile)"
      "tracksToStore sd = tracksToStore afterFirstFile"
      "dbLog sd = dbLog afterFirstFile"
      "events (deliverPosted (cleanupScan sd))
         = events afterFirstFile
           @ replicate (Suc (posted afterFirstFile)) (ProgressChanged 0 0)"
    by blast
  have after: "posted sd = 1 \<and> tracksToStore sd = [songA] \<and> dbLog sd = []
      \<and> events (deliverPosted (cleanupScan sd))
        = [ProgressChanged 0 2, ProgressChanged 1 2, ProgressChanged 0 0]"
    using sd(2-5) fields by simp
  have stop: "\<exists>sd. scanLoop twoSongsEnv True [''/music/b.flac''] (stopThread twoSongsEnv afterFirstFile)
            = Inr (False, sd)
         \<and> posted sd = 1 \<and> tracksToStore sd = [songA] \<and> dbLog sd = []
         \<and> events (deliverPosted (cleanupScan sd))
           = [ProgressChanged 0 2, ProgressChanged 1 2, ProgressChanged 0 0]"
    using sd(1) after by blast
  show ?thesis
    using stopped loop run log queued first kept running stop by blast
qed
section \<open>Soft demotion of missing tracks\<close>

lemma demote_fields:
  "libraryId (demote t) = - 1" "\<not> isEnabled (demote t)" "trackId (demote t) = trackId t"
  "filepath (demote t) = filepath t" "hash (demote t) = hash t"
  by (simp_all add: demote_def)

lemma gone_discs_run:
  "scanLibrary (emptyDirEnv\<lparr>iterationRank := rank\<rparr>) musicLibrary [firstDisc, secondDisc]
     True baseScanner
   = Inr (baseScanner\<lparr>currentLibrary := musicLibrary\<lparr>libStatus := StatusIdle\<rparr>,
            dbLog := [StoreTracks [], UpdateTracks [demote firstDisc]],
            events := [StatusChanged (musicLibrary\<lparr>libStatus := StatusScanning\<rparr>),
                       ProgressChanged 0 0, ScanUpdate [] [demote firstDisc],
                       StatusChanged (musicLibrary\<lparr>libStatus := StatusIdle\<rparr>), Finished]\<rparr>)"
  by (simp add: scan_defs emptyDirEnv_def firstDisc_def secondDisc_def trackAt_def
      baseEnv_def baseScanner_def musicLibrary_def)

lemma one_disc_run:
  "scanLibrary (oneDiscEnv\<lparr>iterationRank := rank\<rparr>) musicLibrary [firstDisc, staleDisc]
     True baseScanner
   = Inr (baseScanner\<lparr>currentLibrary := musicLibrary\<lparr>libStatus := StatusIdle\<rparr>,
            dbLog := [StoreTracks [],
                      UpdateTracks [refreshedDisc]],
            events := [StatusChanged (musicLibrary\<lparr>libStatus := StatusScanning\<rparr>),
                       ProgressChanged 0 1, ProgressChanged 1 1,
                       ScanUpdate [] [refreshedDisc],
                       StatusChanged (musicLibrary\<lparr>libStatus := StatusIdle\<rparr>), Finished],
            polls := Suc (Suc 0)\<rparr>)"
  by (simp add: scan_defs oneDiscEnv_def firstDisc_def secondDisc_def staleDisc_def
      refreshedDisc_def
      trackAt_def baseEnv_def baseScanner_def musicLibrary_def)

text \<open>
  C4 fails in the code. The loop that demotes walks the index of missing tracks by bare
  file name, which holds one track for a name, and \<open>updateExistingTrack\<close> erases from it by
  the bare name of the track it updates. Two runs of \<open>scanLibrary\<close> over enabled tracks of
  the library show it, whatever the order in which the index is walked. In the first the
  files of \<open>/music/a/01.flac\<close> and \<open>/music/b/01.flac\<close> are both gone and no file is found:
  the first track is demoted and the second, which is in the index under no name, is in no
  call on the store. In the second only the file of \<open>/music/a/01.flac\<close> is gone, and the
  file \<open>/music/b/01.flac\<close> was modified: the update of the second track erases the first
  from the index, and the run ends without demoting it.
\<close>

theorem missing_tracks_skipped:
  "isEnabled firstDisc \<and> isInLibrary firstDisc \<and> isEnabled secondDisc \<and> isInLibrary secondDisc
   \<and> fileGone emptyDirEnv firstDisc \<and> fileGone emptyDirEnv secondDisc
   \<and> (\<forall>rank. \<exists>sd. scanLibrary (emptyDirEnv\<lparr>iterationRank := rank\<rparr>) musicLibrary
                     [firstDisc, secondDisc] True baseScanner = Inr sd
          \<and> dbLog sd = [StoreTracks [], UpdateTracks [demote firstDisc]]
          \<and> persisted [firstDisc, secondDisc] (dbLog sd) = [demote firstDisc, secondDisc])
   \<and> isEnabled staleDisc \<and> isInLibrary staleDisc
   \<and> fileGone oneDiscEnv firstDisc \<and> \<not> fileGone oneDiscEnv staleDisc
   \<and> (\<forall>rank. \<exists>sd. scanLibrary (oneDiscEnv\<lparr>iterationRank := rank\<rparr>) musicLibrary
                     [firstDisc, staleDisc] True baseScanner = Inr sd
          \<and> dbLog sd = [StoreTracks [],
                        UpdateTracks [refreshedDisc]]
          \<and> persisted [firstDisc, staleDisc] (dbLog sd)
            = [firstDisc, refreshedDisc])"
proof (intro conjI allI)
  show "isEnabled firstDisc" "isInLibrary firstDisc" "isEnabled secondDisc"
    "isInLibrary secondDisc" "isEnabled staleDisc" "isInLibrary staleDisc"
    by (simp_all add: isInLibrary_def firstDisc_def secondDisc_def staleDisc_def trackAt_def
        emptyTrack_def)
  show "fileGone emptyDirEnv firstDisc" "fileGone emptyDirEnv secondDisc"
    "fileGone oneDiscEnv firstDisc" "\<not> fileGone oneDiscEnv staleDisc"
    by (simp_all add: fileGone_def isInArchive_def emptyDirEnv_def oneDiscEnv_def firstDisc_def
        secondDisc_def staleDisc_def trackAt_def emptyTrack_def)
next
  fix rank :: "string \<Rightarrow> nat"
  show "\<exists>sd. scanLibrary (emptyDirEnv\<lparr>iterationRank := rank\<rparr>) musicLibrary
                     [firstDisc, secondDisc] True baseScanner = Inr sd
          \<and> dbLog sd = [StoreTracks [], UpdateTracks [demote firstDisc]]
          \<and> persisted [firstDisc, secondDisc] (dbLog sd) = [demote firstDisc, secondDisc]"
    unfolding gone_discs_run
    by (simp add: persisted_def updateStored_def demote_def firstDisc_def secondDisc_def
        trackAt_def baseScanner_def)
next
  fix rank :: "string \<Rightarrow> nat"
  show "\<exists>sd. scanLibrary (oneDiscEnv\<lparr>iterationRank := rank\<rparr>) musicLibrary
                     [firstDisc, staleDisc] True baseScanner = Inr sd
          \<and> dbLog sd = [StoreTracks [],
                        UpdateTracks [refreshedDisc]]
          \<and> persisted [firstDisc, staleDisc] (dbLog sd)
            = [firstDisc, refreshedDisc]"
    unfolding one_disc_run
    by (simp add: persisted_def updateStored_def firstDisc_def secondDisc_def staleDisc_def
        refreshedDisc_def trackAt_def baseScanner_def)
qed

section \<open>Two runs over an unchanged file system\<close>

lemma first_run:
  "scanLibrary copiedEnv musicLibrary [oldSong] True baseScanner = Inr afterFirstRun"
  by (simp add: scan_defs copiedEnv_def baseEnv_def baseScanner_def musicLibrary_def
      afterFirstRun_def movedSong_def oldSong_def trackAt_def)

lemma stored_after_first_run: "persisted [oldSong] (dbLog afterFirstRun) = [movedSong]"
  by (simp add: persisted_def updateStored_def afterFirstRun_def movedSong_def oldSong_def
      trackAt_def emptyTrack_def)

lemma second_run:
  "scanLibrary copiedEnv musicLibrary [movedSong] True afterFirstRun
   = Inr (afterFirstRun\<lparr>
       dbLog := dbLog afterFirstRun
                @ [StoreTracks [], UpdateTracks [movedSong\<lparr>modifiedTime := 200\<rparr>]],
       events := events afterFirstRun
                @ [StatusChanged (musicLibrary\<lparr>libStatus := StatusScanning\<rparr>),
                   ProgressChanged 0 1, ProgressChanged 1 1,
                   ScanUpdate [] [movedSong\<lparr>modifiedTime := 200\<rparr>],
                   StatusChanged (musicLibrary\<lparr>libStatus := StatusIdle\<rparr>), Finished],
       polls := Suc (Suc (Suc (Suc 0)))\<rparr>)"
  by (simp add: scan_defs copiedEnv_def baseEnv_def baseScanner_def musicLibrary_def
      afterFirstRun_def movedSong_def oldSong_def trackAt_def)

text \<open>
  C8 at a library the code can meet. The first run recovers the song under its new path
  and writes it with the modified time it had, 100; the store then holds the song at the new
  path. The second run, over the same files and with onlyModified, finds the stored time
  older than the file's 200, reads the song again and writes an update: the second run makes
  an update, not zero.
\<close>

theorem second_run_updates_again:
  "scanLibrary copiedEnv musicLibrary [oldSong] True baseScanner = Inr afterFirstRun
   \<and> dbLog afterFirstRun = [StoreTracks [], UpdateTracks [movedSong]]
   \<and> persisted [oldSong] (dbLog afterFirstRun) = [movedSong]
   \<and> (\<exists>s2. scanLibrary copiedEnv musicLibrary (persisted [oldSong] (dbLog afterFirstRun)) True
              afterFirstRun = Inr s2
         \<and> dbLog s2 = dbLog afterFirstRun
                       @ [StoreTracks [], UpdateTracks [movedSong\<lparr>modifiedTime := 200\<rparr>]])"
  using first_run second_run
  by (simp add: stored_after_first_run) (simp add: afterFirstRun_def)

end
